theory Spec2Isabelle
  imports Complex_Main "HOL-Library.AList"
begin

section \<open>Go values: text, integers, errors\<close>

text \<open>
  The servers are written in Go. A Go \<^verbatim>\<open>string\<close> is a byte sequence, modelled as a
  \<^typ>\<open>string\<close>; the message texts of the source are Chinese and are given here by their
  UTF-8 bytes, each with an English gloss. Go's \<^verbatim>\<open>int\<close> is modelled as \<^typ>\<open>int\<close>: the
  code modelled here compares and prints integers and never does arithmetic that could
  overflow.
\<close>

definition utf8 :: "nat list \<Rightarrow> string" where
  "utf8 bs = map char_of bs"

definition txt_parse_failed :: string where
  \<comment> \<open>failed to parse JSON\<close>
  "txt_parse_failed = utf8 [232, 167, 163, 230, 158, 144] @ ''JSON'' @ utf8 [229, 164, 177, 232, 180, 165]"

definition txt_invalid_version :: string where
  \<comment> \<open>invalid JSON-RPC version\<close>
  "txt_invalid_version = utf8 [230, 151, 160, 230, 149, 136, 231, 154, 132] @ ''JSON-RPC'' @ utf8 [231, 137, 136, 230, 156, 172]"

definition txt_unknown_method :: string where
  \<comment> \<open>unknown method: \<close>
  "txt_unknown_method = utf8 [230, 156, 170, 231, 159, 165, 230, 150, 185, 230, 179, 149] @ '': ''"

definition txt_invalid_init_params :: string where
  \<comment> \<open>invalid initialize parameters\<close>
  "txt_invalid_init_params = utf8 [230, 151, 160, 230, 149, 136, 231, 154, 132, 229, 136, 157, 229, 167, 139, 229, 140, 150, 229, 143, 130, 230, 149, 176]"

definition txt_not_initialized :: string where
  \<comment> \<open>server not initialized\<close>
  "txt_not_initialized = utf8 [230, 156, 141, 229, 138, 161, 229, 153, 168, 230, 156, 170, 229, 136, 157, 229, 167, 139, 229, 140, 150]"

definition txt_invalid_call_params :: string where
  \<comment> \<open>invalid tool call parameters\<close>
  "txt_invalid_call_params = utf8 [230, 151, 160, 230, 149, 136, 231, 154, 132, 229, 183, 165, 229, 133, 183, 232, 176, 131, 231, 148, 168, 229, 143, 130, 230, 149, 176]"

definition txt_unknown_tool :: string where
  \<comment> \<open>unknown tool: \<close>
  "txt_unknown_tool = utf8 [230, 156, 170, 231, 159, 165, 229, 183, 165, 229, 133, 183] @ '': ''"

definition txt_invalid_exec_params :: string where
  \<comment> \<open>invalid SSH execute parameters\<close>
  "txt_invalid_exec_params = utf8 [230, 151, 160, 230, 149, 136, 231, 154, 132] @ ''SSH'' @ utf8 [230, 137, 167, 232, 161, 140, 229, 143, 130, 230, 149, 176]"

definition txt_exec_failed :: string where
  \<comment> \<open>SSH command execution failed\<close>
  "txt_exec_failed = ''SSH'' @ utf8 [229, 145, 189, 228, 187, 164, 230, 137, 167, 232, 161, 140, 229, 164, 177, 232, 180, 165]"

definition txt_info_host :: string where
  \<comment> \<open>host: \<close>
  "txt_info_host = utf8 [228, 184, 187, 230, 156, 186] @ '': ''"

definition txt_info_command :: string where
  \<comment> \<open>newline, command: \<close>
  "txt_info_command = utf8 [10, 229, 145, 189, 228, 187, 164] @ '': ''"

definition txt_info_exit :: string where
  \<comment> \<open>newline, exit code: \<close>
  "txt_info_exit = utf8 [10, 233, 128, 128, 229, 135, 186, 231, 160, 129] @ '': ''"

definition txt_info_duration :: string where
  \<comment> \<open>newline, duration: \<close>
  "txt_info_duration = utf8 [10, 230, 137, 167, 232, 161, 140, 230, 151, 182, 233, 149, 191] @ '': ''"

definition txt_info_stdout :: string where
  \<comment> \<open>standard output: newline\<close>
  "txt_info_stdout = utf8 [230, 160, 135, 229, 135, 134, 232, 190, 147, 229, 135, 186] @ '':'' @ utf8 [10]"

definition txt_info_stderr :: string where
  \<comment> \<open>standard error: newline\<close>
  "txt_info_stderr = utf8 [230, 160, 135, 229, 135, 134, 233, 148, 153, 232, 175, 175] @ '':'' @ utf8 [10]"

definition txt_invalid_transfer_params :: string where
  \<comment> \<open>invalid SSH file transfer parameters\<close>
  "txt_invalid_transfer_params = utf8 [230, 151, 160, 230, 149, 136, 231, 154, 132] @ ''SSH'' @ utf8 [230, 150, 135, 228, 187, 182, 228, 188, 160, 232, 190, 147, 229, 143, 130, 230, 149, 176]"

definition txt_transfer_done :: string where
  \<comment> \<open>file transfer complete, newline, direction: \<close>
  "txt_transfer_done = utf8 [230, 150, 135, 228, 187, 182, 228, 188, 160, 232, 190, 147, 229, 174, 140, 230, 136, 144, 10, 230, 150, 185, 229, 144, 145] @ '': ''"

definition txt_transfer_local :: string where
  \<comment> \<open>newline, local path: \<close>
  "txt_transfer_local = utf8 [10, 230, 156, 172, 229, 156, 176, 232, 183, 175, 229, 190, 132] @ '': ''"

definition txt_transfer_remote :: string where
  \<comment> \<open>newline, remote path: \<close>
  "txt_transfer_remote = utf8 [10, 232, 191, 156, 231, 168, 139, 232, 183, 175, 229, 190, 132] @ '': ''"

definition txt_transfer_host :: string where
  \<comment> \<open>newline, host: \<close>
  "txt_transfer_host = utf8 [10, 228, 184, 187, 230, 156, 186] @ '': ''"

definition txt_method_not_found :: string where
  \<comment> \<open>method not found: \<close>
  "txt_method_not_found = utf8 [230, 150, 185, 230, 179, 149, 230, 156, 170, 230, 137, 190, 229, 136, 176] @ '': ''"

definition txt_bad_params_format :: string where
  \<comment> \<open>invalid parameter format\<close>
  "txt_bad_params_format = utf8 [230, 151, 160, 230, 149, 136, 231, 154, 132, 229, 143, 130, 230, 149, 176, 230, 160, 188, 229, 188, 143]"

definition txt_missing_tool_name :: string where
  \<comment> \<open>missing tool name\<close>
  "txt_missing_tool_name = utf8 [231, 188, 186, 229, 176, 145, 229, 183, 165, 229, 133, 183, 229, 144, 141, 231, 167, 176]"

definition txt_missing_host :: string where
  \<comment> \<open>missing host address\<close>
  "txt_missing_host = utf8 [231, 188, 186, 229, 176, 145, 228, 184, 187, 230, 156, 186, 229, 156, 176, 229, 157, 128]"

definition txt_missing_command :: string where
  \<comment> \<open>missing command\<close>
  "txt_missing_command = utf8 [231, 188, 186, 229, 176, 145, 229, 145, 189, 228, 187, 164]"

definition txt_missing_local :: string where
  \<comment> \<open>missing local path\<close>
  "txt_missing_local = utf8 [231, 188, 186, 229, 176, 145, 230, 156, 172, 229, 156, 176, 232, 183, 175, 229, 190, 132]"

definition txt_missing_remote :: string where
  \<comment> \<open>missing remote path\<close>
  "txt_missing_remote = utf8 [231, 188, 186, 229, 176, 145, 232, 191, 156, 231, 168, 139, 232, 183, 175, 229, 190, 132]"

definition txt_missing_direction :: string where
  \<comment> \<open>missing transfer direction\<close>
  "txt_missing_direction = utf8 [231, 188, 186, 229, 176, 145, 228, 188, 160, 232, 190, 147, 230, 150, 185, 229, 144, 145]"

definition txt_create_conn_failed :: string where
  \<comment> \<open>failed to create SSH connection: \<close>
  "txt_create_conn_failed = utf8 [229, 136, 155, 229, 187, 186] @ ''SSH'' @ utf8 [232, 191, 158, 230, 142, 165, 229, 164, 177, 232, 180, 165] @ '': ''"

definition txt_max_connections :: string where
  \<comment> \<open>maximum number of connections reached: \<close>
  "txt_max_connections = utf8 [229, 183, 178, 232, 190, 190, 229, 136, 176, 230, 156, 128, 229, 164, 167, 232, 191, 158, 230, 142, 165, 230, 149, 176, 233, 153, 144, 229, 136, 182] @ '': ''"

definition txt_connect_failed :: string where
  \<comment> \<open>failed to connect to SSH server: \<close>
  "txt_connect_failed = utf8 [232, 191, 158, 230, 142, 165] @ ''SSH'' @ utf8 [230, 156, 141, 229, 138, 161, 229, 153, 168, 229, 164, 177, 232, 180, 165] @ '': ''"

definition txt_session_failed :: string where
  \<comment> \<open>failed to create SSH session: \<close>
  "txt_session_failed = utf8 [229, 136, 155, 229, 187, 186] @ ''SSH'' @ utf8 [228, 188, 154, 232, 175, 157, 229, 164, 177, 232, 180, 165] @ '': ''"

definition txt_stdout_pipe_failed :: string where
  \<comment> \<open>failed to create stdout pipe: \<close>
  "txt_stdout_pipe_failed = utf8 [229, 136, 155, 229, 187, 186] @ ''stdout'' @ utf8 [231, 174, 161, 233, 129, 147, 229, 164, 177, 232, 180, 165] @ '': ''"

definition txt_stderr_pipe_failed :: string where
  \<comment> \<open>failed to create stderr pipe: \<close>
  "txt_stderr_pipe_failed = utf8 [229, 136, 155, 229, 187, 186] @ ''stderr'' @ utf8 [231, 174, 161, 233, 129, 147, 229, 164, 177, 232, 180, 165] @ '': ''"

definition txt_start_failed :: string where
  \<comment> \<open>failed to start command: \<close>
  "txt_start_failed = utf8 [229, 144, 175, 229, 138, 168, 229, 145, 189, 228, 187, 164, 229, 164, 177, 232, 180, 165] @ '': ''"

definition txt_command_failed :: string where
  \<comment> \<open>command execution failed: \<close>
  "txt_command_failed = utf8 [229, 145, 189, 228, 187, 164, 230, 137, 167, 232, 161, 140, 229, 164, 177, 232, 180, 165] @ '': ''"

definition txt_command_timeout :: string where
  \<comment> \<open>command execution timed out\<close>
  "txt_command_timeout = utf8 [229, 145, 189, 228, 187, 164, 230, 137, 167, 232, 161, 140, 232, 182, 133, 230, 151, 182]"

definition txt_close_conn :: string where
  \<comment> \<open>closing connection \<close>
  "txt_close_conn = utf8 [229, 133, 179, 233, 151, 173, 232, 191, 158, 230, 142, 165] @ '' ''"

definition txt_close_failed :: string where
  \<comment> \<open> failed: \<close>
  "txt_close_failed = '' '' @ utf8 [229, 164, 177, 232, 180, 165] @ '': ''"

definition txt_close_errors :: string where
  \<comment> \<open>errors while closing connections: \<close>
  "txt_close_errors = utf8 [229, 133, 179, 233, 151, 173, 232, 191, 158, 230, 142, 165, 230, 151, 182, 229, 143, 145, 231, 148, 159, 233, 148, 153, 232, 175, 175] @ '': ''"

definition txt_known_hosts_failed :: string where
  \<comment> \<open>failed to load known_hosts file: \<close>
  "txt_known_hosts_failed = utf8 [229, 138, 160, 232, 189, 189] @ ''known_hosts'' @ utf8 [230, 150, 135, 228, 187, 182, 229, 164, 177, 232, 180, 165] @ '': ''"

definition txt_auth_failed :: string where
  \<comment> \<open>failed to get authentication methods: \<close>
  "txt_auth_failed = utf8 [232, 142, 183, 229, 143, 150, 232, 174, 164, 232, 175, 129, 230, 150, 185, 230, 179, 149, 229, 164, 177, 232, 180, 165] @ '': ''"

definition txt_home_failed :: string where
  \<comment> \<open>failed to get user home directory: \<close>
  "txt_home_failed = utf8 [232, 142, 183, 229, 143, 150, 231, 148, 168, 230, 136, 183, 228, 184, 187, 231, 155, 174, 229, 189, 149, 229, 164, 177, 232, 180, 165] @ '': ''"

definition txt_read_key_failed :: string where
  \<comment> \<open>failed to read private key file: \<close>
  "txt_read_key_failed = utf8 [232, 175, 187, 229, 143, 150, 231, 167, 129, 233, 146, 165, 230, 150, 135, 228, 187, 182, 229, 164, 177, 232, 180, 165] @ '': ''"

definition txt_parse_key_failed :: string where
  \<comment> \<open>failed to parse private key: \<close>
  "txt_parse_key_failed = utf8 [232, 167, 163, 230, 158, 144, 231, 167, 129, 233, 146, 165, 229, 164, 177, 232, 180, 165] @ '': ''"

definition txt_no_auth_methods :: string where
  \<comment> \<open>no authentication method available\<close>
  "txt_no_auth_methods = utf8 [230, 178, 161, 230, 156, 137, 229, 143, 175, 231, 148, 168, 231, 154, 132, 232, 174, 164, 232, 175, 129, 230, 150, 185, 230, 179, 149]"

definition txt_desc_execute :: string where
  \<comment> \<open>execute a shell command on a remote server\<close>
  "txt_desc_execute = utf8 [229, 156, 168, 232, 191, 156, 231, 168, 139, 230, 156, 141, 229, 138, 161, 229, 153, 168, 228, 184, 138, 230, 137, 167, 232, 161, 140] @ ''Shell'' @ utf8 [229, 145, 189, 228, 187, 164]"

definition txt_desc_transfer :: string where
  \<comment> \<open>SSH file transfer (upload/download)\<close>
  "txt_desc_transfer = ''SSH'' @ utf8 [230, 150, 135, 228, 187, 182, 228, 188, 160, 232, 190, 147, 239, 188, 136, 228, 184, 138, 228, 188, 160] @ ''/'' @ utf8 [228, 184, 139, 232, 189, 189, 239, 188, 137]"

definition txt_desc_host :: string where
  \<comment> \<open>target server address\<close>
  "txt_desc_host = utf8 [231, 155, 174, 230, 160, 135, 230, 156, 141, 229, 138, 161, 229, 153, 168, 229, 156, 176, 229, 157, 128]"

definition txt_desc_command :: string where
  \<comment> \<open>command to execute\<close>
  "txt_desc_command = utf8 [232, 166, 129, 230, 137, 167, 232, 161, 140, 231, 154, 132, 229, 145, 189, 228, 187, 164]"

definition txt_desc_user :: string where
  \<comment> \<open>SSH user name\<close>
  "txt_desc_user = ''SSH'' @ utf8 [231, 148, 168, 230, 136, 183, 229, 144, 141]"

definition txt_desc_port :: string where
  \<comment> \<open>SSH port\<close>
  "txt_desc_port = ''SSH'' @ utf8 [231, 171, 175, 229, 143, 163]"

definition txt_desc_timeout :: string where
  \<comment> \<open>timeout (seconds)\<close>
  "txt_desc_timeout = utf8 [232, 182, 133, 230, 151, 182, 230, 151, 182, 233, 151, 180, 239, 188, 136, 231, 167, 146, 239, 188, 137]"

definition txt_desc_password_stdio :: string where
  \<comment> \<open>SSH password (optional, key authentication preferred)\<close>
  "txt_desc_password_stdio = ''SSH'' @ utf8 [229, 175, 134, 231, 160, 129, 239, 188, 136, 229, 143, 175, 233, 128, 137, 239, 188, 140, 228, 188, 152, 229, 133, 136, 228, 189, 191, 231, 148, 168, 229, 175, 134, 233, 146, 165, 232, 174, 164, 232, 175, 129, 239, 188, 137]"

definition txt_desc_password_sse :: string where
  \<comment> \<open>SSH password\<close>
  "txt_desc_password_sse = ''SSH'' @ utf8 [229, 175, 134, 231, 160, 129]"

definition txt_desc_local :: string where
  \<comment> \<open>local file path\<close>
  "txt_desc_local = utf8 [230, 156, 172, 229, 156, 176, 230, 150, 135, 228, 187, 182, 232, 183, 175, 229, 190, 132]"

definition txt_desc_remote :: string where
  \<comment> \<open>remote file path\<close>
  "txt_desc_remote = utf8 [232, 191, 156, 231, 168, 139, 230, 150, 135, 228, 187, 182, 232, 183, 175, 229, 190, 132]"

definition txt_desc_direction :: string where
  \<comment> \<open>transfer direction\<close>
  "txt_desc_direction = utf8 [228, 188, 160, 232, 190, 147, 230, 150, 185, 229, 144, 145]"

subsection \<open>Formatting verbs\<close>

text \<open>\<^verbatim>\<open>%d\<close> of \<^verbatim>\<open>fmt.Sprintf\<close>: the decimal digits, with a minus sign when negative.\<close>

definition digit :: "nat \<Rightarrow> char" where
  "digit d = ''0123456789'' ! d"

function decimal :: "nat \<Rightarrow> string" where
  "decimal n = (if n < 10 then [digit n] else decimal (n div 10) @ [digit (n mod 10)])"
  by pat_completeness auto
termination
  by (relation "measure id") auto

declare decimal.simps [simp del]

definition fmt_d :: "int \<Rightarrow> string" where
  "fmt_d i = (if i < 0 then CHR ''-'' # decimal (nat (- i)) else decimal (nat i))"

fun join_with :: "string \<Rightarrow> string list \<Rightarrow> string" where
  "join_with sep [] = []"
| "join_with sep [x] = x"
| "join_with sep (x # y # ys) = x @ sep @ join_with sep (y # ys)"

subsection \<open>Errors and panics\<close>

text \<open>
  A Go \<^verbatim>\<open>error\<close> is either made from a text (\<^verbatim>\<open>fmt.Errorf\<close> without \<^verbatim>\<open>%w\<close>, or an
  error of a library) or wraps another error behind a prefix
  (\<^verbatim>\<open>fmt.Errorf("prefix: %w", err)\<close>). \<open>errorText\<close> is the method \<^verbatim>\<open>Error()\<close>, and
  \<open>rootText\<close> the text of the innermost error of the chain. A call of the source either
  returns a value, returns an error, or panics.
\<close>

datatype error = Errorf string | Wrapf string error

fun errorText :: "error \<Rightarrow> string" where
  "errorText (Errorf s) = s"
| "errorText (Wrapf p e) = p @ errorText e"

fun rootText :: "error \<Rightarrow> string" where
  "rootText (Errorf s) = s"
| "rootText (Wrapf p e) = rootText e"

datatype 'a outcome = Ok 'a | Err error | Panic string

subsection \<open>JSON values\<close>

text \<open>
  A decoded JSON value, as \<^verbatim>\<open>encoding/json\<close> stores it in an \<^verbatim>\<open>interface{}\<close>: numbers are
  \<^verbatim>\<open>float64\<close> (every one of them a rational), objects are maps (association lists with
  distinct keys). A message read from the wire is either not JSON at all, with the text of
  the decoder's error, or a JSON value.
\<close>

datatype json =
    JNull
  | JBool bool
  | JNumber rat
  | JString string
  | JArray "json list"
  | JObject "(string \<times> json) list"

datatype wire = Malformed string | Parsed json

section \<open>The SSH client and its connection pool\<close>

subsection \<open>Data\<close>

type_synonym ssh_client = nat
type_synonym signer = string

datatype AuthMethod = Password string | PublicKeys signer | PublicKeysCallback

datatype HostKeyCallback = KnownHosts string | InsecureIgnoreHostKey

record ClientConfig =
  cc_User :: string
  cc_Timeout :: int
  cc_HostKeyCallback :: HostKeyCallback
  cc_Auth :: "AuthMethod list"

text \<open>\<^verbatim>\<open>ssh.Config\<close>; \<open>Timeout\<close> is a \<^verbatim>\<open>time.Duration\<close>, a number of nanoseconds.\<close>

record Config =
  DefaultUser :: string
  DefaultPort :: int
  Timeout :: int
  KeyFile :: string
  KnownHostsFile :: string
  MaxConnections :: int

record ConnectionInfo =
  ci_Host :: string
  ci_Port :: int
  ci_User :: string
  ci_Password :: string
  ci_KeyFile :: string

record ExecuteResult =
  er_Command :: string
  er_ExitCode :: int
  er_Stdout :: string
  er_Stderr :: string
  er_Duration :: int

text \<open>
  What lies outside the program is a parameter of the model: the file system, the SSH agent
  socket, the network and the remote hosts. \<open>session.Wait()\<close> returns \<^verbatim>\<open>nil\<close>, an
  \<^verbatim>\<open>*ssh.ExitError\<close> carrying the exit status, or another error. A started command either
  returns after some nanoseconds (counted from the creation of the deadline context), with
  the result of \<^verbatim>\<open>Wait\<close> and the bytes read from both pipes, or never returns.
  \<open>probeSession\<close> is the \<^verbatim>\<open>client.NewSession()\<close> of \<^verbatim>\<open>isConnectionAlive\<close> and
  \<open>newSession\<close> the later one of \<^verbatim>\<open>Execute\<close>; they are separate because the connection
  may die between the two calls. \<open>durationString\<close> and \<open>durationSeconds\<close> are
  \<^verbatim>\<open>time.Duration\<close>'s \<^verbatim>\<open>String()\<close> and \<^verbatim>\<open>int(d.Seconds())\<close>, \<open>filepathJoin\<close> is
  \<^verbatim>\<open>filepath.Join\<close>, and \<open>unmarshalError\<close> gives the text of the error of \<^verbatim>\<open>json.Unmarshal\<close>
  from the name of the Go type and the value that does not fit it.
\<close>

datatype wait_result = WaitNil | ExitError int | WaitError error

datatype completion = Returns nat wait_result string string | Hangs

record session_run =
  stdoutPipeErr :: "error option"
  stderrPipeErr :: "error option"
  startErr :: "error option"
  completes :: completion

record world =
  userHomeDir :: "error + string"
  filepathJoin :: "string \<Rightarrow> string \<Rightarrow> string"
  readFile :: "string \<Rightarrow> error + string"
  parsePrivateKey :: "string \<Rightarrow> error + signer"
  agentDial :: bool
  knownhostsNew :: "string \<Rightarrow> error option"
  sshDial :: "string \<Rightarrow> ClientConfig \<Rightarrow> error + ssh_client"
  probeSession :: "ssh_client \<Rightarrow> bool"
  newSession :: "ssh_client \<Rightarrow> error option"
  sessionRun :: "ssh_client \<Rightarrow> string \<Rightarrow> session_run"
  clientCloseErr :: "ssh_client \<Rightarrow> error option"
  sinceStart :: nat
  durationString :: "int \<Rightarrow> string"
  durationSeconds :: "int \<Rightarrow> int"
  unmarshalError :: "string \<Rightarrow> json \<Rightarrow> string"

text \<open>
  The state of \<^verbatim>\<open>ssh.Client\<close>: its configuration, the pool \<^verbatim>\<open>connections\<close> (a Go map,
  here an association list with distinct keys), whether \<^verbatim>\<open>c.ctx\<close> has been cancelled, and
  the record of what the client did to the outside: the addresses dialled, the SSH clients
  closed, the sessions signalled. The operations are modelled one call at a time; the
  mutex of the source makes the check of the limit and the insertion one step also when
  calls overlap.
\<close>

datatype effect = Dialed string | ClientClosed ssh_client | Signalled ssh_client

record Client =
  config :: Config
  connections :: "(string \<times> ssh_client) list"
  ctxDone :: bool
  effects :: "effect list"

definition NewClient :: "Config \<Rightarrow> Client" where
  "NewClient cfg = \<lparr>config = cfg, connections = [], ctxDone = False, effects = []\<rparr>"

subsection \<open>Authentication methods\<close>

text \<open>
  The body of \<^verbatim>\<open>if keyFile != ""\<close> in \<^verbatim>\<open>getAuthMethods\<close>: a leading \<^verbatim>\<open>~\<close> is replaced by the
  home directory (\<^verbatim>\<open>keyFile[2:]\<close> panics when the path is the single character \<^verbatim>\<open>~\<close>),
  the file is read and parsed.
\<close>

definition expandKeyFile :: "world \<Rightarrow> string \<Rightarrow> string outcome" where
  "expandKeyFile w keyFile =
     (if take 1 keyFile = ''~'' then
        (case userHomeDir w of
           Inl e \<Rightarrow> Err (Wrapf txt_home_failed e)
         | Inr homeDir \<Rightarrow>
             if length keyFile < 2 then Panic ''slice bounds out of range''
             else Ok (filepathJoin w homeDir (drop 2 keyFile)))
      else Ok keyFile)"

definition loadKey :: "world \<Rightarrow> string \<Rightarrow> AuthMethod outcome" where
  "loadKey w keyFile =
     (case expandKeyFile w keyFile of
        Err e \<Rightarrow> Err e
      | Panic p \<Rightarrow> Panic p
      | Ok path \<Rightarrow>
          (case readFile w path of
             Inl e \<Rightarrow> Err (Wrapf txt_read_key_failed e)
           | Inr keyData \<Rightarrow>
               (case parsePrivateKey w keyData of
                  Inl e \<Rightarrow> Err (Wrapf txt_parse_key_failed e)
                | Inr key \<Rightarrow> Ok (PublicKeys key))))"

definition getAuthMethods :: "world \<Rightarrow> Config \<Rightarrow> ConnectionInfo \<Rightarrow> AuthMethod list outcome" where
  "getAuthMethods w cfg info =
     (let authMethods1 = (if ci_Password info \<noteq> [] then [Password (ci_Password info)] else []);
          keyFile = (if ci_KeyFile info = [] then KeyFile cfg else ci_KeyFile info)
      in case (if keyFile \<noteq> [] then
                 (case loadKey w keyFile of
                    Err e \<Rightarrow> Err e
                  | Panic p \<Rightarrow> Panic p
                  | Ok m \<Rightarrow> Ok (authMethods1 @ [m]))
               else Ok authMethods1) of
           Err e \<Rightarrow> Err e
         | Panic p \<Rightarrow> Panic p
         | Ok authMethods2 \<Rightarrow>
             (let authMethods3 = (if agentDial w then authMethods2 @ [PublicKeysCallback]
                                  else authMethods2)
              in if length authMethods3 = 0 then Err (Errorf txt_no_auth_methods)
                 else Ok authMethods3))"

subsection \<open>Connections\<close>

definition isConnectionAlive :: "world \<Rightarrow> ssh_client \<Rightarrow> bool" where
  "isConnectionAlive w client = probeSession w client"

definition createConnection :: "world \<Rightarrow> ConnectionInfo \<Rightarrow> Client \<Rightarrow> ssh_client outcome \<times> Client" where
  "createConnection w info c =
     (case (if KnownHostsFile (config c) \<noteq> [] then
              (case knownhostsNew w (KnownHostsFile (config c)) of
                 Some e \<Rightarrow> Inl (Wrapf txt_known_hosts_failed e)
               | None \<Rightarrow> Inr (KnownHosts (KnownHostsFile (config c))))
            else Inr InsecureIgnoreHostKey) of
        Inl e \<Rightarrow> (Err e, c)
      | Inr hostKeyCallback \<Rightarrow>
          (case getAuthMethods w (config c) info of
             Err e \<Rightarrow> (Err (Wrapf txt_auth_failed e), c)
           | Panic p \<Rightarrow> (Panic p, c)
           | Ok auth \<Rightarrow>
               (let sshConfig = \<lparr>cc_User = ci_User info, cc_Timeout = Timeout (config c),
                                  cc_HostKeyCallback = hostKeyCallback, cc_Auth = auth\<rparr>;
                    address = ci_Host info @ '':'' @ fmt_d (ci_Port info);
                    c' = c\<lparr>effects := effects c @ [Dialed address]\<rparr>
                in case sshDial w address sshConfig of
                     Inl e \<Rightarrow> (Err (Wrapf txt_connect_failed e), c')
                   | Inr client \<Rightarrow> (Ok client, c'))))"

text \<open>
  \<^verbatim>\<open>Connect\<close> fills the defaults into \<^verbatim>\<open>info\<close> (through the pointer; no caller reads them
  back), looks the key up (\<open>lookupAlive\<close>, the part under the read lock, which removes an
  entry whose connection is dead), creates a connection and stores it unless the pool
  already holds \<^verbatim>\<open>MaxConnections\<close> entries (\<open>storeConnection\<close>, the part under the write
  lock).
\<close>

definition connKey :: "ConnectionInfo \<Rightarrow> string" where
  "connKey info = ci_User info @ ''@'' @ ci_Host info @ '':'' @ fmt_d (ci_Port info)"

definition fillInfo :: "Config \<Rightarrow> ConnectionInfo \<Rightarrow> ConnectionInfo" where
  "fillInfo cfg info =
     (let info1 = (if ci_Port info = 0 then info\<lparr>ci_Port := DefaultPort cfg\<rparr> else info)
      in if ci_User info1 = [] then info1\<lparr>ci_User := DefaultUser cfg\<rparr> else info1)"

definition storeConnection :: "string \<Rightarrow> ssh_client \<Rightarrow> Client \<Rightarrow> ssh_client outcome \<times> Client" where
  "storeConnection key client c =
     (if int (length (connections c)) \<ge> MaxConnections (config c) then
        (Err (Errorf (txt_max_connections @ fmt_d (MaxConnections (config c)))),
         c\<lparr>effects := effects c @ [ClientClosed client]\<rparr>)
      else (Ok client, c\<lparr>connections := AList.update key client (connections c)\<rparr>))"

definition lookupAlive :: "world \<Rightarrow> string \<Rightarrow> Client \<Rightarrow> ssh_client option \<times> Client" where
  "lookupAlive w key c =
     (case map_of (connections c) key of
        Some client \<Rightarrow>
          if isConnectionAlive w client then (Some client, c)
          else (None, c\<lparr>connections := AList.delete key (connections c)\<rparr>)
      | None \<Rightarrow> (None, c))"

definition Connect :: "world \<Rightarrow> ConnectionInfo \<Rightarrow> Client \<Rightarrow> ssh_client outcome \<times> Client" where
  "Connect w info0 c =
     (let info = fillInfo (config c) info0;
          key = connKey info
      in case lookupAlive w key c of
           (Some client, c1) \<Rightarrow> (Ok client, c1)
         | (None, c1) \<Rightarrow>
             (case createConnection w info c1 of
                (Err e, c2) \<Rightarrow> (Err (Wrapf txt_create_conn_failed e), c2)
              | (Panic p, c2) \<Rightarrow> (Panic p, c2)
              | (Ok client, c2) \<Rightarrow> storeConnection key client c2))"

subsection \<open>Running a command\<close>

text \<open>
  The \<^verbatim>\<open>select\<close> of \<^verbatim>\<open>Execute\<close> takes the \<^verbatim>\<open>done\<close> branch when the command returns before
  the context is done, and the \<^verbatim>\<open>ctx.Done()\<close> branch otherwise. The context is done when
  \<^verbatim>\<open>c.ctx\<close> is cancelled or when \<^verbatim>\<open>c.config.Timeout\<close> has passed. (When both channels become
  ready at the same instant Go chooses either; the model then takes the timeout.)
\<close>

definition doneFirst :: "Client \<Rightarrow> completion \<Rightarrow> bool" where
  "doneFirst c r = (case r of
       Returns t wr out err \<Rightarrow> \<not> ctxDone c \<and> int t < Timeout (config c)
     | Hangs \<Rightarrow> False)"

definition awaitCommand :: "world \<Rightarrow> ssh_client \<Rightarrow> string \<Rightarrow> Client \<Rightarrow> ExecuteResult outcome \<times> Client" where
  "awaitCommand w client command c =
     (case completes (sessionRun w client command) of
        Hangs \<Rightarrow> (Err (Errorf txt_command_timeout), c\<lparr>effects := effects c @ [Signalled client]\<rparr>)
      | Returns t wr out err \<Rightarrow>
          if doneFirst c (Returns t wr out err) then
            (case wr of
               WaitError e \<Rightarrow> (Err (Wrapf txt_command_failed e), c)
             | ExitError status \<Rightarrow>
                 (Ok \<lparr>er_Command = command, er_ExitCode = status, er_Stdout = out,
                      er_Stderr = err, er_Duration = int (sinceStart w + t)\<rparr>, c)
             | WaitNil \<Rightarrow>
                 (Ok \<lparr>er_Command = command, er_ExitCode = 0, er_Stdout = out,
                      er_Stderr = err, er_Duration = int (sinceStart w + t)\<rparr>, c))
          else (Err (Errorf txt_command_timeout), c\<lparr>effects := effects c @ [Signalled client]\<rparr>))"

definition Execute :: "world \<Rightarrow> ConnectionInfo \<Rightarrow> string \<Rightarrow> Client \<Rightarrow> ExecuteResult outcome \<times> Client" where
  "Execute w info command c =
     (case Connect w info c of
        (Err e, c1) \<Rightarrow> (Err (Wrapf txt_connect_failed e), c1)
      | (Panic p, c1) \<Rightarrow> (Panic p, c1)
      | (Ok client, c1) \<Rightarrow>
          (case newSession w client of
             Some e \<Rightarrow> (Err (Wrapf txt_session_failed e), c1)
           | None \<Rightarrow>
               (case stdoutPipeErr (sessionRun w client command) of
                  Some e \<Rightarrow> (Err (Wrapf txt_stdout_pipe_failed e), c1)
                | None \<Rightarrow>
                    (case stderrPipeErr (sessionRun w client command) of
                       Some e \<Rightarrow> (Err (Wrapf txt_stderr_pipe_failed e), c1)
                     | None \<Rightarrow>
                         (case startErr (sessionRun w client command) of
                            Some e \<Rightarrow> (Err (Wrapf txt_start_failed e), c1)
                          | None \<Rightarrow> awaitCommand w client command c1)))))"

text \<open>
  \<^verbatim>\<open>Close\<close> cancels the context, closes every pooled client and empties the pool; it
  reports the clients that failed to close (in the order of the pool, where Go's order of
  map iteration is arbitrary).
\<close>

definition closeError :: "world \<Rightarrow> string \<times> ssh_client \<Rightarrow> error list" where
  "closeError w kc = (case clientCloseErr w (snd kc) of
       Some e \<Rightarrow> [Wrapf (txt_close_conn @ fst kc @ txt_close_failed) e]
     | None \<Rightarrow> [])"

definition Close :: "world \<Rightarrow> Client \<Rightarrow> error option \<times> Client" where
  "Close w c =
     (let errors = concat (map (closeError w) (connections c));
          c' = c\<lparr>ctxDone := True, connections := [],
                 effects := effects c @ map (\<lambda>kc. ClientClosed (snd kc)) (connections c)\<rparr>
      in if length errors > 0 then
           (Some (Errorf (txt_close_errors @ ''['' @ join_with '' '' (map errorText errors) @ '']'')), c')
         else (None, c'))"

definition GetConnectionCount :: "Client \<Rightarrow> int" where
  "GetConnectionCount c = int (length (connections c))"

section \<open>JSON and the MCP message types\<close>

text \<open>
  Decoding into a Go struct: a field whose key is absent or \<^verbatim>\<open>null\<close> keeps its zero value,
  a value of the wrong JSON type makes \<^verbatim>\<open>json.Unmarshal\<close> fail. An \<^verbatim>\<open>int\<close> field accepts
  the numbers that print as a 64-bit integer literal. Keys are looked up by the name in the
  field's tag, as clients write them; \<^verbatim>\<open>encoding/json\<close> would also take a key that differs
  from the tag in the case of its letters, so the decoders below describe the objects that
  hold no such second spelling of a key. The handlers pass the arguments through
  \<^verbatim>\<open>json.Marshal\<close> and back, which cannot fail on decoded JSON and changes nothing but the
  order of the keys.
\<close>

definition member :: "(string \<times> json) list \<Rightarrow> string \<Rightarrow> json" where
  "member ob k = (case map_of ob k of None \<Rightarrow> JNull | Some v \<Rightarrow> v)"

definition iface :: "json \<Rightarrow> json option" where
  "iface v = (case v of JNull \<Rightarrow> None | _ \<Rightarrow> Some v)"

definition decodeString :: "json \<Rightarrow> string option" where
  "decodeString v = (case v of JNull \<Rightarrow> Some [] | JString s \<Rightarrow> Some s | _ \<Rightarrow> None)"

definition decodeBool :: "json \<Rightarrow> bool option" where
  "decodeBool v = (case v of JNull \<Rightarrow> Some False | JBool b \<Rightarrow> Some b | _ \<Rightarrow> None)"

definition decodeInt :: "json \<Rightarrow> int option" where
  "decodeInt v = (case v of
       JNull \<Rightarrow> Some 0
     | JNumber r \<Rightarrow>
         if of_int \<lfloor>r\<rfloor> = r \<and> - (2 ^ 63) \<le> \<lfloor>r\<rfloor> \<and> \<lfloor>r\<rfloor> < 2 ^ 63 then Some \<lfloor>r\<rfloor> else None
     | _ \<Rightarrow> None)"

definition decodeObject :: "json \<Rightarrow> (string \<times> json) list option" where
  "decodeObject v = (case v of JNull \<Rightarrow> Some [] | JObject ob \<Rightarrow> Some ob | _ \<Rightarrow> None)"

definition andThen :: "'a option \<Rightarrow> ('a \<Rightarrow> 'b option) \<Rightarrow> 'b option" where
  "andThen m f = (case m of None \<Rightarrow> None | Some x \<Rightarrow> f x)"

subsection \<open>Envelope\<close>

record MCPRequest =
  JSONRPC :: string
  ID :: "json option"
  Method :: string
  Params :: "json option"

record MCPError =
  Code :: int
  Message :: string
  Data :: "string option"

definition ParseError :: int where "ParseError = - 32700"
definition InvalidRequest :: int where "InvalidRequest = - 32600"
definition MethodNotFound :: int where "MethodNotFound = - 32601"
definition InvalidParams :: int where "InvalidParams = - 32602"
definition InternalError :: int where "InternalError = - 32603"
definition ServerError :: int where "ServerError = - 32000"

definition decodeRequest :: "json \<Rightarrow> MCPRequest option" where
  "decodeRequest v = (case v of
       JNull \<Rightarrow> Some \<lparr>JSONRPC = [], ID = None, Method = [], Params = None\<rparr>
     | JObject ob \<Rightarrow>
         andThen (decodeString (member ob ''jsonrpc'')) (\<lambda>jsonrpc.
         andThen (decodeString (member ob ''method'')) (\<lambda>method.
           Some \<lparr>JSONRPC = jsonrpc, ID = iface (member ob ''id''), Method = method,
                 Params = iface (member ob ''params'')\<rparr>))
     | _ \<Rightarrow> None)"

subsection \<open>Results\<close>

record ServerCapabilities =
  cap_Tools :: "bool option"
  cap_Resources :: "(bool \<times> bool) option"
  cap_Prompts :: "bool option"
  cap_Logging :: "unit option"

record InitializeResult =
  ir_ProtocolVersion :: string
  ir_Capabilities :: ServerCapabilities
  ir_ServerName :: string
  ir_ServerVersion :: string

record Tool =
  tool_Name :: string
  tool_Description :: string
  tool_InputSchema :: json

record TextContent =
  tc_Type :: string
  tc_Text :: string

record ToolCallResult =
  Content :: "TextContent list"
  IsError :: bool

datatype result =
    InitializeR InitializeResult
  | ToolsListR "Tool list"
  | ToolCallR ToolCallResult

record MCPResponse =
  resp_JSONRPC :: string
  resp_ID :: "json option"
  resp_Result :: "result option"
  resp_Error :: "MCPError option"

subsection \<open>Parameters\<close>

record InitializeParams =
  ip_ProtocolVersion :: string
  ip_ClientName :: string
  ip_ClientVersion :: string

definition decodeRoots :: "json \<Rightarrow> unit option" where
  "decodeRoots v = (case v of
       JNull \<Rightarrow> Some ()
     | JObject ob \<Rightarrow> andThen (decodeBool (member ob ''listChanged'')) (\<lambda>_. Some ())
     | _ \<Rightarrow> None)"

definition decodeClientCapabilities :: "json \<Rightarrow> unit option" where
  "decodeClientCapabilities v = (case v of
       JNull \<Rightarrow> Some ()
     | JObject ob \<Rightarrow>
         andThen (decodeObject (member ob ''sampling'')) (\<lambda>_.
         andThen (decodeBool (member ob ''tools'')) (\<lambda>_.
         andThen (decodeBool (member ob ''prompts'')) (\<lambda>_.
         andThen (decodeBool (member ob ''resources'')) (\<lambda>_.
         andThen (decodeBool (member ob ''logging'')) (\<lambda>_.
         decodeRoots (member ob ''roots''))))))
     | _ \<Rightarrow> None)"

definition decodeClientInfo :: "json \<Rightarrow> (string \<times> string) option" where
  "decodeClientInfo v = (case v of
       JNull \<Rightarrow> Some ([], [])
     | JObject ob \<Rightarrow>
         andThen (decodeString (member ob ''name'')) (\<lambda>name.
         andThen (decodeString (member ob ''version'')) (\<lambda>version. Some (name, version)))
     | _ \<Rightarrow> None)"

definition decodeInitializeParams :: "json \<Rightarrow> InitializeParams option" where
  "decodeInitializeParams v = (case v of
       JNull \<Rightarrow> Some \<lparr>ip_ProtocolVersion = [], ip_ClientName = [], ip_ClientVersion = []\<rparr>
     | JObject ob \<Rightarrow>
         andThen (decodeString (member ob ''protocolVersion'')) (\<lambda>protocolVersion.
         andThen (decodeClientCapabilities (member ob ''capabilities'')) (\<lambda>_.
         andThen (decodeClientInfo (member ob ''clientInfo'')) (\<lambda>clientInfo.
           Some \<lparr>ip_ProtocolVersion = protocolVersion, ip_ClientName = fst clientInfo,
                 ip_ClientVersion = snd clientInfo\<rparr>)))
     | _ \<Rightarrow> None)"

record ToolCallParams =
  tcp_Name :: string
  tcp_Arguments :: "(string \<times> json) list"

definition decodeToolCallParams :: "json \<Rightarrow> ToolCallParams option" where
  "decodeToolCallParams v = (case v of
       JNull \<Rightarrow> Some \<lparr>tcp_Name = [], tcp_Arguments = []\<rparr>
     | JObject ob \<Rightarrow>
         andThen (decodeString (member ob ''name'')) (\<lambda>name.
         andThen (decodeObject (member ob ''arguments'')) (\<lambda>arguments.
         andThen (decodeObject (member ob ''_meta'')) (\<lambda>_.
           Some \<lparr>tcp_Name = name, tcp_Arguments = arguments\<rparr>)))
     | _ \<Rightarrow> None)"

record SSHExecuteParams =
  ep_Host :: string
  ep_Command :: string
  ep_User :: string
  ep_Port :: int
  ep_Timeout :: int
  ep_Password :: string

definition decodeSSHExecuteParams :: "(string \<times> json) list \<Rightarrow> SSHExecuteParams option" where
  "decodeSSHExecuteParams ob =
     andThen (decodeString (member ob ''host'')) (\<lambda>host.
     andThen (decodeString (member ob ''command'')) (\<lambda>command.
     andThen (decodeString (member ob ''user'')) (\<lambda>user.
     andThen (decodeInt (member ob ''port'')) (\<lambda>port.
     andThen (decodeInt (member ob ''timeout'')) (\<lambda>timeout.
     andThen (decodeString (member ob ''password'')) (\<lambda>password.
       Some \<lparr>ep_Host = host, ep_Command = command, ep_User = user, ep_Port = port,
             ep_Timeout = timeout, ep_Password = password\<rparr>))))))"

record SSHFileTransferParams =
  ft_Host :: string
  ft_LocalPath :: string
  ft_RemotePath :: string
  ft_User :: string
  ft_Port :: int
  ft_Direction :: string

definition decodeSSHFileTransferParams :: "(string \<times> json) list \<Rightarrow> SSHFileTransferParams option" where
  "decodeSSHFileTransferParams ob =
     andThen (decodeString (member ob ''host'')) (\<lambda>host.
     andThen (decodeString (member ob ''localPath'')) (\<lambda>localPath.
     andThen (decodeString (member ob ''remotePath'')) (\<lambda>remotePath.
     andThen (decodeString (member ob ''user'')) (\<lambda>user.
     andThen (decodeInt (member ob ''port'')) (\<lambda>port.
     andThen (decodeString (member ob ''direction'')) (\<lambda>direction.
       Some \<lparr>ft_Host = host, ft_LocalPath = localPath, ft_RemotePath = remotePath,
             ft_User = user, ft_Port = port, ft_Direction = direction\<rparr>))))))"

subsection \<open>Server configuration\<close>

text \<open>
  \<^verbatim>\<open>config.Config\<close>: the server's identity and the SSH defaults (\<^verbatim>\<open>config.SSHConfig\<close> has
  the fields of \<^verbatim>\<open>ssh.Config\<close>, and both constructors copy them one by one).
\<close>

record ServerConfig =
  sc_Name :: string
  sc_Version :: string
  sc_ProtocolVersion :: string
  sc_Port :: int
  sc_Timeout :: int

record AppConfig =
  Server :: ServerConfig
  SSH :: Config

section \<open>The stdio server\<close>

text \<open>
  The state of \<^verbatim>\<open>MCPServer\<close>: \<open>writer\<close> holds the frames written to standard output, each
  one line with the JSON of a response; \<open>crashed\<close> is set when a handler panics, which ends
  the process. The handlers also return an error to \<^verbatim>\<open>Run\<close>, which only logs it; the log is
  not modelled. Writing to standard output is taken to succeed.
\<close>

record MCPServer =
  mcp_config :: AppConfig
  sshClient :: Client
  initialized :: bool
  capabilities :: ServerCapabilities
  writer :: "MCPResponse list"
  crashed :: bool

definition serverCapabilities :: ServerCapabilities where
  "serverCapabilities =
     \<lparr>cap_Tools = Some True, cap_Resources = None, cap_Prompts = None, cap_Logging = None\<rparr>"

definition NewMCPServer :: "AppConfig \<Rightarrow> MCPServer" where
  "NewMCPServer cfg =
     \<lparr>mcp_config = cfg, sshClient = NewClient (SSH cfg), initialized = False,
      capabilities = serverCapabilities, writer = [], crashed = False\<rparr>"

definition writeResponse :: "MCPResponse \<Rightarrow> MCPServer \<Rightarrow> MCPServer" where
  "writeResponse response s = s\<lparr>writer := writer s @ [response]\<rparr>"

definition sendResponse :: "json option \<Rightarrow> result \<Rightarrow> MCPServer \<Rightarrow> MCPServer" where
  "sendResponse i r s =
     writeResponse \<lparr>resp_JSONRPC = ''2.0'', resp_ID = i, resp_Result = Some r, resp_Error = None\<rparr> s"

definition sendError :: "json option \<Rightarrow> int \<Rightarrow> string \<Rightarrow> string option \<Rightarrow> MCPServer \<Rightarrow> MCPServer" where
  "sendError i code message data s =
     writeResponse \<lparr>resp_JSONRPC = ''2.0'', resp_ID = i, resp_Result = None,
                    resp_Error = Some \<lparr>Code = code, Message = message, Data = data\<rparr>\<rparr> s"

subsection \<open>The tool manifest\<close>

definition property :: "string \<Rightarrow> string \<Rightarrow> string \<Rightarrow> (string \<times> json) list \<Rightarrow> string \<times> json" where
  "property name ty desc extra =
     (name, JObject ([(''type'', JString ty), (''description'', JString desc)] @ extra))"

definition userProp :: "AppConfig \<Rightarrow> string \<times> json" where
  "userProp cfg = property ''user'' ''string'' txt_desc_user [(''default'', JString (DefaultUser (SSH cfg)))]"

definition portProp :: "AppConfig \<Rightarrow> string \<times> json" where
  "portProp cfg =
     property ''port'' ''integer'' txt_desc_port [(''default'', JNumber (of_int (DefaultPort (SSH cfg))))]"

definition timeoutProp :: "world \<Rightarrow> AppConfig \<Rightarrow> string \<times> json" where
  "timeoutProp w cfg =
     property ''timeout'' ''integer'' txt_desc_timeout
       [(''default'', JNumber (of_int (durationSeconds w (Timeout (SSH cfg)))))]"

definition directionProp :: "string \<times> json" where
  "directionProp =
     property ''direction'' ''string'' txt_desc_direction
       [(''enum'', JArray [JString ''upload'', JString ''download''])]"

definition toolSchema :: "(string \<times> json) list \<Rightarrow> string list \<Rightarrow> json" where
  "toolSchema properties required =
     JObject [(''type'', JString ''object''), (''properties'', JObject properties),
              (''required'', JArray (map JString required))]"

definition stdioTools :: "world \<Rightarrow> AppConfig \<Rightarrow> Tool list" where
  "stdioTools w cfg =
     [\<lparr>tool_Name = ''ssh_execute'', tool_Description = txt_desc_execute,
       tool_InputSchema = toolSchema
         [property ''host'' ''string'' txt_desc_host [],
          property ''command'' ''string'' txt_desc_command [],
          userProp cfg, portProp cfg, timeoutProp w cfg,
          property ''password'' ''string'' txt_desc_password_stdio []]
         [''host'', ''command'']\<rparr>,
      \<lparr>tool_Name = ''ssh_file_transfer'', tool_Description = txt_desc_transfer,
       tool_InputSchema = toolSchema
         [property ''host'' ''string'' txt_desc_host [],
          property ''local_path'' ''string'' txt_desc_local [],
          property ''remote_path'' ''string'' txt_desc_remote [],
          directionProp, userProp cfg, portProp cfg]
         [''host'', ''local_path'', ''remote_path'', ''direction'']\<rparr>]"

subsection \<open>Handlers\<close>

definition handleInitialize :: "world \<Rightarrow> MCPRequest \<Rightarrow> MCPServer \<Rightarrow> MCPServer" where
  "handleInitialize w request s =
     (let answer = sendResponse (ID request)
            (InitializeR \<lparr>ir_ProtocolVersion = sc_ProtocolVersion (Server (mcp_config s)),
                          ir_Capabilities = capabilities s,
                          ir_ServerName = sc_Name (Server (mcp_config s)),
                          ir_ServerVersion = sc_Version (Server (mcp_config s))\<rparr>) s
      in case Params request of
           None \<Rightarrow> answer
         | Some p \<Rightarrow>
             (case decodeInitializeParams p of
                None \<Rightarrow> sendError (ID request) InvalidParams txt_invalid_init_params
                          (Some (unmarshalError w ''types.InitializeParams'' p)) s
              | Some params \<Rightarrow> answer))"

definition handleToolsList :: "world \<Rightarrow> MCPRequest \<Rightarrow> MCPServer \<Rightarrow> MCPServer" where
  "handleToolsList w request s =
     (if \<not> initialized s then sendError (ID request) ServerError txt_not_initialized None s
      else sendResponse (ID request) (ToolsListR (stdioTools w (mcp_config s))) s)"

definition infoText :: "world \<Rightarrow> string \<Rightarrow> string \<Rightarrow> ExecuteResult \<Rightarrow> string" where
  "infoText w host command result =
     txt_info_host @ host @ txt_info_command @ command
       @ txt_info_exit @ fmt_d (er_ExitCode result)
       @ txt_info_duration @ durationString w (er_Duration result) @ [CHR 0x0A]
       @ (if er_Stdout result \<noteq> [] then txt_info_stdout @ er_Stdout result @ [CHR 0x0A] else [])
       @ (if er_Stderr result \<noteq> [] then txt_info_stderr @ er_Stderr result @ [CHR 0x0A] else [])"

definition fillExecuteDefaults :: "world \<Rightarrow> Config \<Rightarrow> SSHExecuteParams \<Rightarrow> SSHExecuteParams" where
  "fillExecuteDefaults w cfg params =
     (let p1 = (if ep_User params = [] then params\<lparr>ep_User := DefaultUser cfg\<rparr> else params);
          p2 = (if ep_Port p1 = 0 then p1\<lparr>ep_Port := DefaultPort cfg\<rparr> else p1)
      in if ep_Timeout p2 = 0 then p2\<lparr>ep_Timeout := durationSeconds w (Timeout cfg)\<rparr> else p2)"

definition connInfoOf :: "SSHExecuteParams \<Rightarrow> ConnectionInfo" where
  "connInfoOf params =
     \<lparr>ci_Host = ep_Host params, ci_Port = ep_Port params, ci_User = ep_User params,
      ci_Password = ep_Password params, ci_KeyFile = []\<rparr>"

definition handleSSHExecute :: "world \<Rightarrow> json option \<Rightarrow> (string \<times> json) list \<Rightarrow> MCPServer \<Rightarrow> MCPServer" where
  "handleSSHExecute w requestID arguments s =
     (case decodeSSHExecuteParams arguments of
        None \<Rightarrow> sendError requestID InvalidParams txt_invalid_exec_params
                  (Some (unmarshalError w ''types.SSHExecuteParams'' (JObject arguments))) s
      | Some params0 \<Rightarrow>
          (let params = fillExecuteDefaults w (SSH (mcp_config s)) params0;
               connInfo = connInfoOf params
           in case Execute w connInfo (ep_Command params) (sshClient s) of
                (Err e, c) \<Rightarrow>
                  sendError requestID ServerError txt_exec_failed (Some (errorText e))
                    (s\<lparr>sshClient := c\<rparr>)
              | (Panic p, c) \<Rightarrow> s\<lparr>sshClient := c, crashed := True\<rparr>
              | (Ok result, c) \<Rightarrow>
                  sendResponse requestID
                    (ToolCallR \<lparr>Content = [\<lparr>tc_Type = ''text'',
                                 tc_Text = infoText w (ep_Host params) (ep_Command params) result\<rparr>],
                                IsError = (er_ExitCode result \<noteq> 0)\<rparr>)
                    (s\<lparr>sshClient := c\<rparr>)))"

definition transferText :: "string \<Rightarrow> string \<Rightarrow> string \<Rightarrow> string \<Rightarrow> string" where
  "transferText direction localPath remotePath host =
     txt_transfer_done @ direction @ txt_transfer_local @ localPath
       @ txt_transfer_remote @ remotePath @ txt_transfer_host @ host"

definition fillTransferDefaults :: "Config \<Rightarrow> SSHFileTransferParams \<Rightarrow> SSHFileTransferParams" where
  "fillTransferDefaults cfg params =
     (let p1 = (if ft_User params = [] then params\<lparr>ft_User := DefaultUser cfg\<rparr> else params)
      in if ft_Port p1 = 0 then p1\<lparr>ft_Port := DefaultPort cfg\<rparr> else p1)"

definition handleSSHFileTransfer :: "world \<Rightarrow> json option \<Rightarrow> (string \<times> json) list \<Rightarrow> MCPServer \<Rightarrow> MCPServer" where
  "handleSSHFileTransfer w requestID arguments s =
     (case decodeSSHFileTransferParams arguments of
        None \<Rightarrow> sendError requestID InvalidParams txt_invalid_transfer_params
                  (Some (unmarshalError w ''types.SSHFileTransferParams'' (JObject arguments))) s
      | Some params0 \<Rightarrow>
          (let params = fillTransferDefaults (SSH (mcp_config s)) params0
           in sendResponse requestID
                (ToolCallR \<lparr>Content = [\<lparr>tc_Type = ''text'',
                             tc_Text = transferText (ft_Direction params) (ft_LocalPath params)
                                         (ft_RemotePath params) (ft_Host params)\<rparr>],
                            IsError = False\<rparr>) s))"

definition dispatchTool :: "world \<Rightarrow> json option \<Rightarrow> ToolCallParams \<Rightarrow> MCPServer \<Rightarrow> MCPServer" where
  "dispatchTool w requestID params s =
     (if tcp_Name params = ''ssh_execute'' then
        handleSSHExecute w requestID (tcp_Arguments params) s
      else if tcp_Name params = ''ssh_file_transfer'' then
        handleSSHFileTransfer w requestID (tcp_Arguments params) s
      else sendError requestID MethodNotFound (txt_unknown_tool @ tcp_Name params) None s)"

definition handleToolsCall :: "world \<Rightarrow> MCPRequest \<Rightarrow> MCPServer \<Rightarrow> MCPServer" where
  "handleToolsCall w request s =
     (if \<not> initialized s then sendError (ID request) ServerError txt_not_initialized None s
      else case Params request of
             None \<Rightarrow> dispatchTool w (ID request) \<lparr>tcp_Name = [], tcp_Arguments = []\<rparr> s
           | Some p \<Rightarrow>
               (case decodeToolCallParams p of
                  None \<Rightarrow> sendError (ID request) InvalidParams txt_invalid_call_params
                            (Some (unmarshalError w ''types.ToolCallParams'' p)) s
                | Some params \<Rightarrow> dispatchTool w (ID request) params s))"

definition handleInitializedNotification :: "MCPRequest \<Rightarrow> MCPServer \<Rightarrow> MCPServer" where
  "handleInitializedNotification request s = s\<lparr>initialized := True\<rparr>"

definition routeRequest :: "world \<Rightarrow> MCPRequest \<Rightarrow> MCPServer \<Rightarrow> MCPServer" where
  "routeRequest w request s =
     (if Method request = ''initialize'' then handleInitialize w request s
      else if Method request = ''tools/list'' then handleToolsList w request s
      else if Method request = ''tools/call'' then handleToolsCall w request s
      else if Method request = ''notifications/initialized'' then
        handleInitializedNotification request s
      else sendError (ID request) MethodNotFound (txt_unknown_method @ Method request) None s)"

definition handleMessage :: "world \<Rightarrow> wire \<Rightarrow> MCPServer \<Rightarrow> MCPServer" where
  "handleMessage w message s = (case message of
       Malformed err \<Rightarrow> sendError None ParseError txt_parse_failed (Some err) s
     | Parsed v \<Rightarrow>
         (case decodeRequest v of
            None \<Rightarrow> sendError None ParseError txt_parse_failed
                      (Some (unmarshalError w ''types.MCPRequest'' v)) s
          | Some request \<Rightarrow>
              if JSONRPC request \<noteq> ''2.0'' then
                sendError (ID request) InvalidRequest txt_invalid_version None s
              else routeRequest w request s))"

text \<open>
  \<^verbatim>\<open>Run\<close> handles the lines of standard input one after the other (\<open>serve\<close>, the loop),
  each in the world of its moment, and closes the SSH client at the end of input; a panic
  ends the process at once.
\<close>

fun serve :: "(world \<times> wire) list \<Rightarrow> MCPServer \<Rightarrow> MCPServer" where
  "serve [] s = s"
| "serve ((w, message) # rest) s =
     (let s' = handleMessage w message s in if crashed s' then s' else serve rest s')"

definition Run :: "(world \<times> wire) list \<Rightarrow> world \<Rightarrow> MCPServer \<Rightarrow> MCPServer" where
  "Run input wEnd s =
     (let s' = serve input s
      in if crashed s' then s' else s'\<lparr>sshClient := snd (Close wEnd (sshClient s'))\<rparr>)"

section \<open>The HTTP/SSE server\<close>

text \<open>
  A session holds the buffered channel \<^verbatim>\<open>Messages\<close> (capacity 100) and what has been written
  to its event stream. An HTTP request is reduced to what the handlers read: the method,
  the \<^verbatim>\<open>Host\<close> header, the query parameters and the body. A handler answers with a status
  code, or panics (\<^verbatim>\<open>net/http\<close> then drops the connection). In \<open>handleMessage\<close> the send
  on the channel succeeds when the buffer has room; with a full buffer that nobody drains
  the five-second timer fires.
\<close>

datatype SSEEvent = EndpointEvent string | MessageEvent MCPResponse

record SSESession =
  sess_ID :: string
  Messages :: "MCPResponse list"
  Stream :: "SSEEvent list"

record SSEServer =
  sse_config :: AppConfig
  sse_sshClient :: Client
  sse_capabilities :: ServerCapabilities
  sessions :: "(string \<times> SSESession) list"

record HTTPRequest =
  http_Method :: string
  http_Host :: string
  http_Query :: "(string \<times> string) list"
  http_Body :: wire

datatype HTTPReply = Status int | HandlerPanic string

definition NewSSEServer :: "AppConfig \<Rightarrow> SSEServer" where
  "NewSSEServer cfg =
     \<lparr>sse_config = cfg, sse_sshClient = NewClient (SSH cfg),
      sse_capabilities = serverCapabilities, sessions = []\<rparr>"

definition queryGet :: "(string \<times> string) list \<Rightarrow> string \<Rightarrow> string" where
  "queryGet q k = (case map_of q k of None \<Rightarrow> [] | Some v \<Rightarrow> v)"

subsection \<open>Sessions\<close>

text \<open>
  \<^verbatim>\<open>handleSSE\<close> in three steps: the request opens a session named after the clock (in
  nanoseconds) and emits the endpoint event; the goroutine \<^verbatim>\<open>handleSessionMessages\<close> moves
  one message from the channel to the stream; the end of the connection removes the
  session. The response writer is taken to support flushing.
\<close>

definition handleSSE :: "nat \<Rightarrow> HTTPRequest \<Rightarrow> SSEServer \<Rightarrow> HTTPReply \<times> SSEServer" where
  "handleSSE now r s =
     (if http_Method r = ''OPTIONS'' then (Status 200, s)
      else if http_Method r \<noteq> ''GET'' then (Status 405, s)
      else
        (let sessionID = fmt_d (int now);
             endpoint = ''http://'' @ http_Host r @ ''/mcp/message?sessionId='' @ sessionID;
             session = \<lparr>sess_ID = sessionID, Messages = [], Stream = [EndpointEvent endpoint]\<rparr>
         in (Status 200, s\<lparr>sessions := AList.update sessionID session (sessions s)\<rparr>)))"

definition handleSessionMessages :: "string \<Rightarrow> SSEServer \<Rightarrow> SSEServer" where
  "handleSessionMessages sessionID s =
     (case map_of (sessions s) sessionID of
        None \<Rightarrow> s
      | Some session \<Rightarrow>
          (case Messages session of
             [] \<Rightarrow> s
           | message # rest \<Rightarrow>
               s\<lparr>sessions := AList.update sessionID
                    (session\<lparr>Messages := rest, Stream := Stream session @ [MessageEvent message]\<rparr>)
                    (sessions s)\<rparr>))"

definition closeSession :: "string \<Rightarrow> SSEServer \<Rightarrow> SSEServer" where
  "closeSession sessionID s = s\<lparr>sessions := AList.delete sessionID (sessions s)\<rparr>"

subsection \<open>Tools\<close>

definition sseTools :: "world \<Rightarrow> AppConfig \<Rightarrow> Tool list" where
  "sseTools w cfg =
     [\<lparr>tool_Name = ''ssh_execute'', tool_Description = txt_desc_execute,
       tool_InputSchema = toolSchema
         [property ''host'' ''string'' txt_desc_host [],
          property ''command'' ''string'' txt_desc_command [],
          userProp cfg, portProp cfg, timeoutProp w cfg,
          property ''password'' ''string'' txt_desc_password_sse []]
         [''host'', ''command'']\<rparr>,
      \<lparr>tool_Name = ''ssh_file_transfer'', tool_Description = txt_desc_transfer,
       tool_InputSchema = toolSchema
         [property ''host'' ''string'' txt_desc_host [],
          property ''localPath'' ''string'' txt_desc_local [],
          property ''remotePath'' ''string'' txt_desc_remote [],
          directionProp, userProp cfg, portProp cfg,
          property ''password'' ''string'' txt_desc_password_sse []]
         [''host'', ''localPath'', ''remotePath'', ''direction'']\<rparr>]"

text \<open>
  A type assertion \<^verbatim>\<open>args["k"].(string)\<close> succeeds exactly when the key is present with a
  string value; \<^verbatim>\<open>.(float64)\<close> when it is present with a number. \<^verbatim>\<open>int(p)\<close> of a positive
  port is its integer part (for a number beyond the range of \<^verbatim>\<open>int\<close> Go leaves the result
  to the platform).
\<close>

definition assertString :: "(string \<times> json) list \<Rightarrow> string \<Rightarrow> string option" where
  "assertString args k = (case map_of args k of Some (JString x) \<Rightarrow> Some x | _ \<Rightarrow> None)"

definition assertFloat :: "(string \<times> json) list \<Rightarrow> string \<Rightarrow> rat option" where
  "assertFloat args k = (case map_of args k of Some (JNumber x) \<Rightarrow> Some x | _ \<Rightarrow> None)"

definition assertMap :: "(string \<times> json) list \<Rightarrow> string \<Rightarrow> (string \<times> json) list option" where
  "assertMap args k = (case map_of args k of Some (JObject x) \<Rightarrow> Some x | _ \<Rightarrow> None)"

definition sseConnInfo :: "Config \<Rightarrow> (string \<times> json) list \<Rightarrow> string \<Rightarrow> ConnectionInfo" where
  "sseConnInfo cfg args host =
     (let user = (case assertString args ''user'' of
                    Some u \<Rightarrow> if u \<noteq> [] then u else DefaultUser cfg
                  | None \<Rightarrow> DefaultUser cfg);
          port = (case assertFloat args ''port'' of
                    Some p \<Rightarrow> if p > 0 then \<lfloor>p\<rfloor> else DefaultPort cfg
                  | None \<Rightarrow> DefaultPort cfg);
          password = (case assertString args ''password'' of
                        Some p \<Rightarrow> if p \<noteq> [] then p else []
                      | None \<Rightarrow> [])
      in \<lparr>ci_Host = host, ci_Port = port, ci_User = user, ci_Password = password,
          ci_KeyFile = []\<rparr>)"

definition executeSSHCommand :: "world \<Rightarrow> (string \<times> json) list \<Rightarrow> SSEServer \<Rightarrow> ToolCallResult outcome \<times> SSEServer" where
  "executeSSHCommand w args s =
     (case assertString args ''host'' of
        None \<Rightarrow> (Err (Errorf txt_missing_host), s)
      | Some host \<Rightarrow>
          (case assertString args ''command'' of
             None \<Rightarrow> (Err (Errorf txt_missing_command), s)
           | Some command \<Rightarrow>
               (case Execute w (sseConnInfo (SSH (sse_config s)) args host) command
                       (sse_sshClient s) of
                  (Err e, c) \<Rightarrow> (Err (Wrapf (txt_exec_failed @ '': '') e), s\<lparr>sse_sshClient := c\<rparr>)
                | (Panic p, c) \<Rightarrow> (Panic p, s\<lparr>sse_sshClient := c\<rparr>)
                | (Ok result, c) \<Rightarrow>
                    (Ok \<lparr>Content = [\<lparr>tc_Type = ''text'',
                                      tc_Text = infoText w host command result\<rparr>],
                         IsError = (er_ExitCode result \<noteq> 0)\<rparr>,
                     s\<lparr>sse_sshClient := c\<rparr>))))"

definition executeSSHFileTransfer :: "(string \<times> json) list \<Rightarrow> SSEServer \<Rightarrow> ToolCallResult outcome \<times> SSEServer" where
  "executeSSHFileTransfer args s =
     (case assertString args ''host'' of
        None \<Rightarrow> (Err (Errorf txt_missing_host), s)
      | Some host \<Rightarrow>
          (case assertString args ''localPath'' of
             None \<Rightarrow> (Err (Errorf txt_missing_local), s)
           | Some localPath \<Rightarrow>
               (case assertString args ''remotePath'' of
                  None \<Rightarrow> (Err (Errorf txt_missing_remote), s)
                | Some remotePath \<Rightarrow>
                    (case assertString args ''direction'' of
                       None \<Rightarrow> (Err (Errorf txt_missing_direction), s)
                     | Some direction \<Rightarrow>
                         (Ok \<lparr>Content = [\<lparr>tc_Type = ''text'',
                                 tc_Text = transferText direction localPath remotePath host\<rparr>],
                              IsError = False\<rparr>, s)))))"

definition sse_handleToolsCall :: "world \<Rightarrow> json option \<Rightarrow> SSEServer \<Rightarrow> ToolCallResult outcome \<times> SSEServer" where
  "sse_handleToolsCall w params s = (case params of
       Some (JObject paramsMap) \<Rightarrow>
         (case assertString paramsMap ''name'' of
            None \<Rightarrow> (Err (Errorf txt_missing_tool_name), s)
          | Some toolName \<Rightarrow>
              (case assertMap paramsMap ''arguments'' of
                 None \<Rightarrow> (Err (Errorf txt_bad_params_format), s)
               | Some arguments \<Rightarrow>
                   if toolName = ''ssh_execute'' then executeSSHCommand w arguments s
                   else if toolName = ''ssh_file_transfer'' then executeSSHFileTransfer arguments s
                   else (Err (Errorf (txt_unknown_tool @ toolName)), s)))
     | _ \<Rightarrow> (Err (Errorf txt_bad_params_format), s))"

subsection \<open>Requests\<close>

definition sse_handleInitialize :: "SSEServer \<Rightarrow> result" where
  "sse_handleInitialize s =
     InitializeR \<lparr>ir_ProtocolVersion = ''2025-03-26'', ir_Capabilities = sse_capabilities s,
                  ir_ServerName = sc_Name (Server (sse_config s)),
                  ir_ServerVersion = sc_Version (Server (sse_config s))\<rparr>"

text \<open>
  \<^verbatim>\<open>handleRequest\<close> returns a pointer to the response, \<^verbatim>\<open>nil\<close> for
  \<^verbatim>\<open>notifications/initialized\<close>; \<open>Inl\<close> is a panic raised below it.
\<close>

definition sse_handleRequest :: "world \<Rightarrow> MCPRequest \<Rightarrow> SSEServer \<Rightarrow> (string + MCPResponse option) \<times> SSEServer" where
  "sse_handleRequest w request s =
     (let response = \<lparr>resp_JSONRPC = ''2.0'', resp_ID = ID request, resp_Result = None,
                      resp_Error = None\<rparr>
      in if Method request = ''initialize'' then
           (Inr (Some (response\<lparr>resp_Result := Some (sse_handleInitialize s)\<rparr>)), s)
         else if Method request = ''tools/list'' then
           (Inr (Some (response\<lparr>resp_Result := Some (ToolsListR (sseTools w (sse_config s)))\<rparr>)), s)
         else if Method request = ''tools/call'' then
           (case sse_handleToolsCall w (Params request) s of
              (Err e, s1) \<Rightarrow>
                (Inr (Some (response\<lparr>resp_Error :=
                   Some \<lparr>Code = - 32000, Message = errorText e, Data = None\<rparr>\<rparr>)), s1)
            | (Panic p, s1) \<Rightarrow> (Inl p, s1)
            | (Ok r, s1) \<Rightarrow> (Inr (Some (response\<lparr>resp_Result := Some (ToolCallR r)\<rparr>)), s1))
         else if Method request = ''notifications/initialized'' then (Inr None, s)
         else
           (Inr (Some (response\<lparr>resp_Error :=
              Some \<lparr>Code = - 32601, Message = txt_method_not_found @ Method request,
                    Data = None\<rparr>\<rparr>)), s))"

definition enqueue :: "string \<Rightarrow> SSESession \<Rightarrow> MCPResponse \<Rightarrow> SSEServer \<Rightarrow> HTTPReply \<times> SSEServer" where
  "enqueue sessionID session response s =
     (if length (Messages session) < 100 then
        (Status 200,
         s\<lparr>sessions := AList.update sessionID
              (session\<lparr>Messages := Messages session @ [response]\<rparr>) (sessions s)\<rparr>)
      else (Status 408, s))"

definition sse_handleMessage :: "world \<Rightarrow> HTTPRequest \<Rightarrow> SSEServer \<Rightarrow> HTTPReply \<times> SSEServer" where
  "sse_handleMessage w r s =
     (if http_Method r = ''OPTIONS'' then (Status 200, s)
      else if http_Method r \<noteq> ''POST'' then (Status 405, s)
      else if queryGet (http_Query r) ''sessionId'' = [] then (Status 400, s)
      else
        (case map_of (sessions s) (queryGet (http_Query r) ''sessionId'') of
           None \<Rightarrow> (Status 404, s)
         | Some session \<Rightarrow>
             (case (case http_Body r of Malformed err \<Rightarrow> None | Parsed v \<Rightarrow> decodeRequest v) of
                None \<Rightarrow> (Status 400, s)
              | Some request \<Rightarrow>
                  (case sse_handleRequest w request s of
                     (Inl p, s1) \<Rightarrow> (HandlerPanic p, s1)
                   | (Inr response, s1) \<Rightarrow>
                       if ID request = None then (Status 200, s1)
                       else
                         (case response of
                            None \<Rightarrow> (HandlerPanic ''nil pointer dereference'', s1)
                          | Some resp \<Rightarrow>
                              enqueue (queryGet (http_Query r) ''sessionId'') session resp s1)))))"

section \<open>Vocabulary of the properties, and concrete scenarios\<close>

subsection \<open>Predicates and frames\<close>

text \<open>
  The pool is well-formed when no key occurs twice, so that the length of the association
  list is the size of the Go map, and when it holds at most \<^verbatim>\<open>MaxConnections\<close> entries.
\<close>

definition poolOK :: "Client \<Rightarrow> bool" where
  "poolOK c \<longleftrightarrow>
     distinct (map fst (connections c)) \<and> int (length (connections c)) \<le> MaxConnections (config c)"


text \<open>
  The two shapes of a response: an error object and no result, or a tool result and no
  error. \<open>transferResult\<close> is the result that both servers build for a file transfer.
  \<open>toolCall\<close> is a \<^verbatim>\<open>tools/call\<close> request for a tool and its arguments, and \<open>rpc\<close> the JSON
  of a message with a method, with or without \<^verbatim>\<open>id\<close>, and no parameters.
\<close>

definition errorFrame :: "json option \<Rightarrow> int \<Rightarrow> string \<Rightarrow> string option \<Rightarrow> MCPResponse" where
  "errorFrame i code message data =
     \<lparr>resp_JSONRPC = ''2.0'', resp_ID = i, resp_Result = None,
      resp_Error = Some \<lparr>Code = code, Message = message, Data = data\<rparr>\<rparr>"

definition resultFrame :: "json option \<Rightarrow> ToolCallResult \<Rightarrow> MCPResponse" where
  "resultFrame i r =
     \<lparr>resp_JSONRPC = ''2.0'', resp_ID = i, resp_Result = Some (ToolCallR r), resp_Error = None\<rparr>"

definition transferResult :: "string \<Rightarrow> string \<Rightarrow> string \<Rightarrow> string \<Rightarrow> ToolCallResult" where
  "transferResult direction localPath remotePath host =
     \<lparr>Content = [\<lparr>tc_Type = ''text'',
                  tc_Text = transferText direction localPath remotePath host\<rparr>],
      IsError = False\<rparr>"

definition toolCall :: "json option \<Rightarrow> string \<Rightarrow> (string \<times> json) list \<Rightarrow> MCPRequest" where
  "toolCall i name arguments =
     \<lparr>JSONRPC = ''2.0'', ID = i, Method = ''tools/call'',
      Params = Some (JObject [(''name'', JString name), (''arguments'', JObject arguments)])\<rparr>"

definition rpc :: "json option \<Rightarrow> string \<Rightarrow> json" where
  "rpc i method = JObject ([(''jsonrpc'', JString ''2.0'')]
                    @ (case i of None \<Rightarrow> [] | Some v \<Rightarrow> [(''id'', v)])
                    @ [(''method'', JString method)])"

subsection \<open>A configuration and an outside world\<close>

text \<open>
  A configuration, an outside world and inputs for running the model: one host that accepts
  the password \<^verbatim>\<open>secret\<close>, two readable key files, no SSH agent, and a command whose
  completion is the parameter. \<open>demoServer\<close> is a stdio server after the handshake.
\<close>

definition demoConfig :: AppConfig where
  "demoConfig =
     \<lparr>Server = \<lparr>sc_Name = ''SSH-MCP-Server'', sc_Version = ''1.0.0'',
                sc_ProtocolVersion = ''2025-03-26'', sc_Port = 8000, sc_Timeout = 30000000000\<rparr>,
      SSH = \<lparr>DefaultUser = ''root'', DefaultPort = 22, Timeout = 30000000000, KeyFile = [],
             KnownHostsFile = [], MaxConnections = 10\<rparr>\<rparr>"

definition demoRun :: "completion \<Rightarrow> session_run" where
  "demoRun r = \<lparr>stdoutPipeErr = None, stderrPipeErr = None, startErr = None, completes = r\<rparr>"

definition demoWorld :: "completion \<Rightarrow> world" where
  "demoWorld r =
     \<lparr>userHomeDir = Inr ''/root'', filepathJoin = (\<lambda>a b. a @ ''/'' @ b),
      readFile = (\<lambda>p. if p = ''/keys/a'' then Inr ''key-a''
                        else if p = ''/keys/b'' then Inr ''key-b''
                        else Inl (Errorf ''no such file or directory'')),
      parsePrivateKey = (\<lambda>d. Inr d), agentDial = False, knownhostsNew = (\<lambda>f. None),
      sshDial = (\<lambda>address cfg. if cc_Auth cfg = [Password ''secret''] then Inr 1
                                else Inl (Errorf ''ssh: unable to authenticate'')),
      probeSession = (\<lambda>c. True), newSession = (\<lambda>c. None),
      sessionRun = (\<lambda>c command. demoRun r), clientCloseErr = (\<lambda>c. None),
      sinceStart = 0, durationString = (\<lambda>d. fmt_d d @ ''ns''),
      durationSeconds = (\<lambda>d. d div 1000000000),
      unmarshalError = (\<lambda>ty v. ''json: cannot unmarshal into Go value of type '' @ ty)\<rparr>"

definition demoInfo :: ConnectionInfo where
  "demoInfo = \<lparr>ci_Host = ''localhost'', ci_Port = 0, ci_User = [], ci_Password = ''secret'',
                ci_KeyFile = []\<rparr>"

definition demoArgs :: "(string \<times> json) list" where
  "demoArgs = [(''host'', JString ''localhost''), (''command'', JString ''printf hello''),
               (''user'', JString ''test''), (''password'', JString ''secret'')]"

definition demoServer :: MCPServer where
  "demoServer = (NewMCPServer demoConfig)\<lparr>initialized := True\<rparr>"

subsection \<open>Inputs of the scenarios\<close>

text \<open>A pool with limit 1 that holds a connection to another host.\<close>

definition fullClient :: Client where
  "fullClient = (NewClient ((SSH demoConfig)\<lparr>MaxConnections := 1\<rparr>))
                  \<lparr>connections := [(''root@elsewhere:22'', 5)]\<rparr>"



text \<open>
  A command that ends after a microsecond with the given exit status, and what both
  servers return for status 1.
\<close>

definition exitsWith :: "int \<Rightarrow> completion" where
  "exitsWith status = Returns 1000 (if status = 0 then WaitNil else ExitError status) ''hello'' []"

definition failedResult :: ExecuteResult where
  "failedResult = \<lparr>er_Command = ''printf hello'', er_ExitCode = 1, er_Stdout = ''hello'',
                    er_Stderr = [], er_Duration = 1000\<rparr>"

definition failedToolResult :: ToolCallResult where
  "failedToolResult =
     \<lparr>Content = [\<lparr>tc_Type = ''text'',
                  tc_Text = infoText (demoWorld (exitsWith 1)) ''localhost'' ''printf hello''
                              failedResult\<rparr>],
      IsError = True\<rparr>"

definition failedFrame :: MCPResponse where
  "failedFrame = \<lparr>resp_JSONRPC = ''2.0'', resp_ID = Some (JNumber 4),
                   resp_Result = Some (ToolCallR failedToolResult), resp_Error = None\<rparr>"




text \<open>
  A POST to \<^verbatim>\<open>/mcp/message\<close> carrying a \<^verbatim>\<open>tools/list\<close> request, and a server on which one
  session was opened at clock 42.
\<close>

definition postRequest :: "(string \<times> string) list \<Rightarrow> HTTPRequest" where
  "postRequest q =
     \<lparr>http_Method = ''POST'', http_Host = ''localhost:8000'', http_Query = q,
      http_Body = Parsed (JObject [(''jsonrpc'', JString ''2.0''), (''id'', JNumber 1),
                                   (''method'', JString ''tools/list'')])\<rparr>"


text \<open>
  A call with a password that the host refuses, its decoded parameters, the error that
  \<^verbatim>\<open>Execute\<close> returns and the state of the SSH client after the refused dial.
\<close>

definition wrongPasswordArgs :: "(string \<times> json) list" where
  "wrongPasswordArgs = [(''host'', JString ''localhost''), (''command'', JString ''printf hello''),
                        (''password'', JString ''guess'')]"

definition wrongPasswordParams :: SSHExecuteParams where
  "wrongPasswordParams =
     \<lparr>ep_Host = ''localhost'', ep_Command = ''printf hello'', ep_User = [], ep_Port = 0,
      ep_Timeout = 0, ep_Password = ''guess''\<rparr>"

definition authError :: error where
  "authError = Wrapf txt_connect_failed (Wrapf txt_create_conn_failed
                 (Wrapf txt_connect_failed (Errorf ''ssh: unable to authenticate'')))"

definition dialledClient :: Client where
  "dialledClient = (NewClient (SSH demoConfig))\<lparr>effects := [Dialed ''localhost:22'']\<rparr>"

text \<open>
  A command that takes ten seconds, a server whose configured timeout is five seconds, and
  the result of the command when it is left to finish.
\<close>

definition tenSeconds :: completion where
  "tenSeconds = Returns 10000000000 WaitNil ''done'' []"

definition quickConfig :: AppConfig where
  "quickConfig = demoConfig\<lparr>SSH := (SSH demoConfig)\<lparr>Timeout := 5000000000\<rparr>\<rparr>"

definition quickServer :: MCPServer where
  "quickServer = (NewMCPServer quickConfig)\<lparr>initialized := True\<rparr>"

definition doneResult :: ToolCallResult where
  "doneResult =
     \<lparr>Content = [\<lparr>tc_Type = ''text'',
                  tc_Text = infoText (demoWorld tenSeconds) ''localhost'' ''printf hello''
                    \<lparr>er_Command = ''printf hello'', er_ExitCode = 0, er_Stdout = ''done'',
                     er_Stderr = [], er_Duration = 10000000000\<rparr>\<rparr>],
      IsError = False\<rparr>"





section \<open>Properties\<close>

subsection \<open>Unfolding the model on concrete inputs\<close>

lemmas ssh_defs = Execute_def awaitCommand_def doneFirst_def Connect_def lookupAlive_def
  storeConnection_def createConnection_def getAuthMethods_def loadKey_def expandKeyFile_def
  isConnectionAlive_def connKey_def fillInfo_def NewClient_def poolOK_def Let_def

lemmas json_defs = member_def iface_def decodeString_def decodeBool_def decodeInt_def
  decodeObject_def andThen_def decodeRequest_def decodeToolCallParams_def
  decodeSSHExecuteParams_def decodeSSHFileTransferParams_def decodeInitializeParams_def
  decodeClientInfo_def decodeClientCapabilities_def decodeRoots_def assertString_def
  assertFloat_def assertMap_def

lemmas stdio_defs = handleMessage_def routeRequest_def handleInitialize_def handleToolsList_def
  handleToolsCall_def dispatchTool_def handleSSHExecute_def handleSSHFileTransfer_def
  handleInitializedNotification_def connInfoOf_def fillExecuteDefaults_def
  fillTransferDefaults_def sendResponse_def sendError_def writeResponse_def NewMCPServer_def
  ParseError_def InvalidRequest_def MethodNotFound_def InvalidParams_def ServerError_def

lemmas sse_defs = sse_handleMessage_def sse_handleRequest_def sse_handleToolsCall_def
  executeSSHCommand_def executeSSHFileTransfer_def sseConnInfo_def sse_handleInitialize_def
  enqueue_def queryGet_def handleSSE_def NewSSEServer_def

lemmas fmt_defs = fmt_d_def decimal.simps digit_def

lemmas demo_defs = demoConfig_def demoRun_def demoWorld_def demoInfo_def demoArgs_def
  demoServer_def errorFrame_def resultFrame_def transferResult_def toolCall_def rpc_def

lemmas model_defs = ssh_defs json_defs stdio_defs sse_defs fmt_defs demo_defs

subsection \<open>The size of the pool\<close>

lemma createConnection_pool:
  "connections (snd (createConnection w info c)) = connections c \<and>
   config (snd (createConnection w info c)) = config c"
  by (simp add: createConnection_def Let_def split: sum.splits outcome.splits option.splits)

lemma lookupAlive_pool:
  "config (snd (lookupAlive w key c)) = config c \<and>
   length (connections (snd (lookupAlive w key c))) \<le> length (connections c) \<and>
   (distinct (map fst (connections c)) \<longrightarrow> distinct (map fst (connections (snd (lookupAlive w key c)))))"
  by (simp add: lookupAlive_def AList.delete_eq distinct_delete[unfolded AList.delete_eq] split: option.splits)

lemma lookupAlive_miss:
  "lookupAlive w key c = (None, c1) \<Longrightarrow> map_of (connections c1) key = None"
  by (auto simp add: lookupAlive_def AList.delete_eq map_of_eq_None_iff split: option.splits if_splits)

lemma lookupAlive_hit:
  "lookupAlive w key c = (Some client, c1) \<Longrightarrow> c1 = c \<and> map_of (connections c) key = Some client"
  by (auto simp add: lookupAlive_def split: option.splits if_splits)

lemma length_update_le: "length (AList.update k v al) \<le> Suc (length al)"
  by (induction al) auto

lemma storeConnection_pool:
  "poolOK c \<Longrightarrow> poolOK (snd (storeConnection key client c))"
  using length_update_le[of key client "connections c"]
  by (auto simp add: storeConnection_def poolOK_def distinct_update)

lemma Connect_pool: "poolOK c \<Longrightarrow> poolOK (snd (Connect w info c))"
proof -
  assume ok: "poolOK c"
  let ?key = "connKey (fillInfo (config c) info)"
  obtain hit c1 where l: "lookupAlive w ?key c = (hit, c1)" by (cases "lookupAlive w ?key c")
  from lookupAlive_pool[of w ?key c] l ok have ok1: "poolOK c1"
    by (simp add: poolOK_def)
  show ?thesis
  proof (cases hit)
    case (Some client)
    with l ok1 show ?thesis by (simp add: Connect_def Let_def)
  next
    case None
    obtain r c2 where cc: "createConnection w (fillInfo (config c) info) c1 = (r, c2)"
      by (cases "createConnection w (fillInfo (config c) info) c1")
    from createConnection_pool[of w "fillInfo (config c) info" c1] cc ok1 have ok2: "poolOK c2"
      by (simp add: poolOK_def)
    from storeConnection_pool[OF ok2] None l cc ok2 show ?thesis
      by (cases r) (simp_all add: Connect_def Let_def)
  qed
qed

lemma Execute_pool:
  "connections (snd (Execute w info command c)) = connections (snd (Connect w info c)) \<and>
   config (snd (Execute w info command c)) = config (snd (Connect w info c))"
  by (cases "Connect w info c")
     (simp add: Execute_def awaitCommand_def split: outcome.splits option.splits completion.splits
                wait_result.splits)

lemma Close_pool: "poolOK c \<Longrightarrow> poolOK (snd (Close w c))"
  by (simp add: Close_def poolOK_def Let_def)

lemma Connect_exhausted:
  assumes "lookupAlive w (connKey (fillInfo (config c) info)) c = (None, c1)"
    and "createConnection w (fillInfo (config c) info) c1 = (Ok client, c2)"
    and "MaxConnections (config c) \<le> int (length (connections c2))"
  shows "Connect w info c =
           (Err (Errorf (txt_max_connections @ fmt_d (MaxConnections (config c)))),
            c2\<lparr>effects := effects c2 @ [ClientClosed client]\<rparr>)"
    and "connections c2 = connections c1"
    and "map_of (connections c2) (connKey (fillInfo (config c) info)) = None"
proof -
  from lookupAlive_pool[of w "connKey (fillInfo (config c) info)" c] assms(1)
  have cfg1: "config c1 = config c" by simp
  from createConnection_pool[of w "fillInfo (config c) info" c1] assms(2)
  have c2: "connections c2 = connections c1" "config c2 = config c1" by simp_all
  show "connections c2 = connections c1" by (rule c2)
  from lookupAlive_miss[OF assms(1)] c2
  show "map_of (connections c2) (connKey (fillInfo (config c) info)) = None" by simp
  from assms cfg1 c2
  show "Connect w info c =
           (Err (Errorf (txt_max_connections @ fmt_d (MaxConnections (config c)))),
            c2\<lparr>effects := effects c2 @ [ClientClosed client]\<rparr>)"
    by (simp add: Connect_def Let_def storeConnection_def)
qed

text \<open>
  Claim C8. The pool never holds more than \<^verbatim>\<open>MaxConnections\<close> entries: the pool of a new
  client is well-formed (for a limit that is not negative), and \<^verbatim>\<open>Connect\<close>, \<^verbatim>\<open>Execute\<close> and
  \<^verbatim>\<open>Close\<close> keep it well-formed. When the lookup finds no live connection, a new connection is
  created and the pool is already at the limit, \<^verbatim>\<open>Connect\<close> fails with the error "maximum
  number of connections reached", closes the new client and leaves the pool as it was,
  without an entry for the key.
\<close>

theorem pool_size_bounded:
  "(0 \<le> MaxConnections cfg \<longrightarrow> poolOK (NewClient cfg)) \<and>
   (poolOK c \<longrightarrow>
      poolOK (snd (Connect w info c)) \<and>
      poolOK (snd (Execute w info command c)) \<and>
      poolOK (snd (Close w c)) \<and>
      (\<forall>c1 client c2.
         lookupAlive w (connKey (fillInfo (config c) info)) c = (None, c1) \<and>
         createConnection w (fillInfo (config c) info) c1 = (Ok client, c2) \<and>
         MaxConnections (config c) \<le> int (length (connections c2)) \<longrightarrow>
           Connect w info c =
             (Err (Errorf (txt_max_connections @ fmt_d (MaxConnections (config c)))),
              c2\<lparr>effects := effects c2 @ [ClientClosed client]\<rparr>) \<and>
           connections c2 = connections c1 \<and>
           map_of (connections c2) (connKey (fillInfo (config c) info)) = None))"
proof (intro conjI impI allI)
  assume "0 \<le> MaxConnections cfg"
  then show "poolOK (NewClient cfg)" by (simp add: poolOK_def NewClient_def)
next
  assume ok: "poolOK c"
  show "poolOK (snd (Connect w info c))" by (rule Connect_pool[OF ok])
  from Connect_pool[OF ok, of w info] Execute_pool[of w info command c]
  show "poolOK (snd (Execute w info command c))" by (simp add: poolOK_def)
  show "poolOK (snd (Close w c))" by (rule Close_pool[OF ok])
next
  fix c1 client c2
  assume h: "lookupAlive w (connKey (fillInfo (config c) info)) c = (None, c1) \<and>
         createConnection w (fillInfo (config c) info) c1 = (Ok client, c2) \<and>
         MaxConnections (config c) \<le> int (length (connections c2))"
  then show "Connect w info c =
             (Err (Errorf (txt_max_connections @ fmt_d (MaxConnections (config c)))),
              c2\<lparr>effects := effects c2 @ [ClientClosed client]\<rparr>)"
    using Connect_exhausted(1) by blast
  from h show "connections c2 = connections c1" using Connect_exhausted(2) by blast
  from h show "map_of (connections c2) (connKey (fillInfo (config c) info)) = None"
    using Connect_exhausted(3) by blast
qed


text \<open>
  The hypotheses of C8 at a pool with limit 1 that holds a connection to another host.
\<close>

theorem pool_size_bounded_witness:
  "poolOK fullClient \<and>
   lookupAlive (demoWorld Hangs) (connKey (fillInfo (config fullClient) demoInfo)) fullClient
     = (None, fullClient) \<and>
   createConnection (demoWorld Hangs) (fillInfo (config fullClient) demoInfo) fullClient
     = (Ok 1, fullClient\<lparr>effects := [Dialed ''localhost:22'']\<rparr>) \<and>
   fst (Connect (demoWorld Hangs) demoInfo fullClient)
     = Err (Errorf (txt_max_connections @ ''1'')) \<and>
   connections (snd (Connect (demoWorld Hangs) demoInfo fullClient)) = connections fullClient \<and>
   effects (snd (Connect (demoWorld Hangs) demoInfo fullClient))
     = [Dialed ''localhost:22'', ClientClosed 1] \<and>
   poolOK (snd (Connect (demoWorld Hangs) demoInfo fullClient))"
proof -
  have ok: "poolOK fullClient" by (simp add: model_defs fullClient_def)
  have l: "lookupAlive (demoWorld Hangs) (connKey (fillInfo (config fullClient) demoInfo))
             fullClient = (None, fullClient)"
    by (simp add: model_defs fullClient_def)
  have cc: "createConnection (demoWorld Hangs) (fillInfo (config fullClient) demoInfo) fullClient
              = (Ok 1, fullClient\<lparr>effects := [Dialed ''localhost:22'']\<rparr>)"
    by (simp add: model_defs fullClient_def)
  have full: "MaxConnections (config fullClient)
                \<le> int (length (connections (fullClient\<lparr>effects := [Dialed ''localhost:22'']\<rparr>)))"
    by (simp add: model_defs fullClient_def)
  have mx: "fmt_d (MaxConnections (config fullClient)) = ''1''" by (simp add: model_defs fullClient_def)
  have cn: "connections (fullClient\<lparr>effects := [Dialed ''localhost:22'']\<rparr>) = connections fullClient"
    by simp
  from pool_size_bounded[of _ fullClient "demoWorld Hangs" demoInfo] ok l cc full
  have r: "Connect (demoWorld Hangs) demoInfo fullClient =
             (Err (Errorf (txt_max_connections @ fmt_d (MaxConnections (config fullClient)))),
              fullClient\<lparr>effects := [Dialed ''localhost:22'']\<rparr>
                \<lparr>effects := effects (fullClient\<lparr>effects := [Dialed ''localhost:22'']\<rparr>) @ [ClientClosed 1]\<rparr>)"
    and p: "poolOK (snd (Connect (demoWorld Hangs) demoInfo fullClient))"
    by blast+
  from ok l cc r p mx show ?thesis by simp
qed

subsection \<open>Authentication methods\<close>





subsection \<open>The error flag of ssh_execute\<close>

lemma Execute_Ok_exit:
  "Execute w info command c = (Ok res, c') \<Longrightarrow>
     \<exists>client t wr out err.
        completes (sessionRun w client command) = Returns t wr out err \<and>
        (wr = WaitNil \<and> er_ExitCode res = 0 \<or> wr = ExitError (er_ExitCode res))"
  by (cases "Connect w info c")
     (fastforce simp add: Execute_def awaitCommand_def
           split: outcome.splits option.splits completion.splits wait_result.splits if_splits)

lemma handleSSHExecute_result:
  assumes "writer (handleSSHExecute w rid args s) = writer s @ [r]"
    and "resp_Result r = Some (ToolCallR tr)"
  shows "resp_Error r = None \<and>
     (\<exists>info command res.
        Execute w info command (sshClient s)
          = (Ok res, sshClient (handleSSHExecute w rid args s)) \<and>
        IsError tr = (er_ExitCode res \<noteq> 0) \<and>
        Content tr = [\<lparr>tc_Type = ''text'', tc_Text = infoText w (ci_Host info) command res\<rparr>])"
proof (cases "decodeSSHExecuteParams args")
  case None
  with assms show ?thesis
    by (auto simp add: handleSSHExecute_def sendError_def writeResponse_def)
next
  case (Some p0)
  let ?p = "fillExecuteDefaults w (SSH (mcp_config s)) p0"
  let ?info = "connInfoOf ?p"
  obtain o1 c where ex: "Execute w ?info (ep_Command ?p) (sshClient s) = (o1, c)"
    by (cases "Execute w ?info (ep_Command ?p) (sshClient s)")
  show ?thesis
  proof (cases o1)
    case (Ok res)
    with assms Some ex have "resp_Error r = None \<and> IsError tr = (er_ExitCode res \<noteq> 0) \<and>
        Content tr = [\<lparr>tc_Type = ''text'', tc_Text = infoText w (ci_Host ?info) (ep_Command ?p) res\<rparr>]
        \<and> sshClient (handleSSHExecute w rid args s) = c"
      by (auto simp add: handleSSHExecute_def Let_def sendResponse_def writeResponse_def
            connInfoOf_def)
    with ex Ok show ?thesis by blast
  next
    case (Err e)
    with assms Some ex show ?thesis
      by (auto simp add: handleSSHExecute_def Let_def sendError_def writeResponse_def)
  next
    case (Panic p)
    with assms Some ex show ?thesis
      by (auto simp add: handleSSHExecute_def Let_def)
  qed
qed

lemma executeSSHCommand_result:
  assumes "executeSSHCommand w args s = (Ok tr, s')"
  shows "\<exists>info command res.
        Execute w info command (sse_sshClient s) = (Ok res, sse_sshClient s') \<and>
        IsError tr = (er_ExitCode res \<noteq> 0) \<and>
        Content tr = [\<lparr>tc_Type = ''text'', tc_Text = infoText w (ci_Host info) command res\<rparr>]"
proof -
  from assms obtain host where h: "assertString args ''host'' = Some host"
    by (cases "assertString args ''host''") (auto simp add: executeSSHCommand_def)
  from assms h obtain command where cm: "assertString args ''command'' = Some command"
    by (cases "assertString args ''command''") (auto simp add: executeSSHCommand_def)
  let ?info = "sseConnInfo (SSH (sse_config s)) args host"
  obtain o1 c where ex: "Execute w ?info command (sse_sshClient s) = (o1, c)"
    by (cases "Execute w ?info command (sse_sshClient s)")
  have hi: "ci_Host ?info = host" by (simp add: sseConnInfo_def Let_def)
  from assms h cm ex obtain res where ok: "o1 = Ok res"
    by (cases o1) (auto simp add: executeSSHCommand_def)
  from assms h cm ex ok hi have "IsError tr = (er_ExitCode res \<noteq> 0) \<and>
        Content tr = [\<lparr>tc_Type = ''text'', tc_Text = infoText w (ci_Host ?info) command res\<rparr>] \<and>
        sse_sshClient s' = c"
    by (auto simp add: executeSSHCommand_def)
  with ex ok show ?thesis by blast
qed

text \<open>
  Claim C7. In every tool result that \<^verbatim>\<open>ssh_execute\<close> returns, on the stdio server (the frame
  that \<^verbatim>\<open>handleSSHExecute\<close> writes) and on the HTTP/SSE server (the result of
  \<^verbatim>\<open>executeSSHCommand\<close>), \<^verbatim>\<open>isError\<close> is true exactly when the exit code of the result of
  \<^verbatim>\<open>Execute\<close> is not zero; the exit code is 0 when \<^verbatim>\<open>Wait\<close> returned no error and the exit
  status of the \<^verbatim>\<open>ExitError\<close> otherwise.
\<close>

theorem ssh_execute_isError_iff_exit_code:
  "(writer (handleSSHExecute w rid args s) = writer s @ [r] \<and> resp_Result r = Some (ToolCallR tr) \<longrightarrow>
      resp_Error r = None \<and>
      (\<exists>info command res.
         Execute w info command (sshClient s) = (Ok res, sshClient (handleSSHExecute w rid args s)) \<and>
         IsError tr = (er_ExitCode res \<noteq> 0) \<and>
         Content tr = [\<lparr>tc_Type = ''text'', tc_Text = infoText w (ci_Host info) command res\<rparr>])) \<and>
   (executeSSHCommand w args2 s2 = (Ok tr2, s2') \<longrightarrow>
      (\<exists>info command res.
         Execute w info command (sse_sshClient s2) = (Ok res, sse_sshClient s2') \<and>
         IsError tr2 = (er_ExitCode res \<noteq> 0) \<and>
         Content tr2 = [\<lparr>tc_Type = ''text'', tc_Text = infoText w (ci_Host info) command res\<rparr>])) \<and>
   (Execute w info0 command0 c = (Ok res0, c') \<longrightarrow>
      (\<exists>client t wr out err.
         completes (sessionRun w client command0) = Returns t wr out err \<and>
         (wr = WaitNil \<and> er_ExitCode res0 = 0 \<or> wr = ExitError (er_ExitCode res0))))"
  using handleSSHExecute_result[of w rid args s r tr] executeSSHCommand_result[of w args2 s2 tr2 s2']
    Execute_Ok_exit[of w info0 command0 c res0 c']
  by blast

text \<open>
  C7 at a command that exits with status 1, on both servers.
\<close>

theorem ssh_execute_isError_iff_exit_code_witness:
  "writer (handleSSHExecute (demoWorld (exitsWith 1)) (Some (JNumber 4)) demoArgs demoServer)
     = writer demoServer @ [failedFrame] \<and>
   resp_Result failedFrame = Some (ToolCallR failedToolResult) \<and>
   fst (executeSSHCommand (demoWorld (exitsWith 1)) demoArgs (NewSSEServer demoConfig))
     = Ok failedToolResult \<and>
   IsError failedToolResult \<and>
   (\<exists>info command res c.
      Execute (demoWorld (exitsWith 1)) info command (sshClient demoServer) = (Ok res, c) \<and>
      er_ExitCode res \<noteq> 0)"
proof -
  let ?w = "demoWorld (exitsWith 1)"
  have a: "writer (handleSSHExecute ?w (Some (JNumber 4)) demoArgs demoServer)
             = writer demoServer @ [failedFrame]"
    by (simp add: model_defs exitsWith_def failedFrame_def failedToolResult_def failedResult_def)
  have b: "resp_Result failedFrame = Some (ToolCallR failedToolResult)"
    by (simp add: failedFrame_def)
  have c: "fst (executeSSHCommand ?w demoArgs (NewSSEServer demoConfig)) = Ok failedToolResult"
    by (simp add: model_defs exitsWith_def failedFrame_def failedToolResult_def failedResult_def)
  have d: "IsError failedToolResult" by (simp add: failedToolResult_def)
  from ssh_execute_isError_iff_exit_code[of ?w "Some (JNumber 4)" demoArgs demoServer failedFrame
         failedToolResult] a b d
  have "\<exists>info command res c.
      Execute ?w info command (sshClient demoServer) = (Ok res, c) \<and> er_ExitCode res \<noteq> 0"
    by blast
  with a b c d show ?thesis by blast
qed

subsection \<open>The simulated file transfer, and unknown sessions\<close>








text \<open>
  Claim C5, as stated, fails: a POST to \<^verbatim>\<open>/mcp/message\<close> without the \<^verbatim>\<open>sessionId\<close> parameter
  is answered with status 400, not 404.
\<close>

theorem missing_sessionId_counterexample:
  "fst (sse_handleMessage (demoWorld Hangs) (postRequest []) (NewSSEServer demoConfig)) = Status 400"
  by (simp add: model_defs postRequest_def)

text \<open>
  Claim C5, amended. A POST to \<^verbatim>\<open>/mcp/message\<close> whose \<^verbatim>\<open>sessionId\<close> parameter is absent or
  empty is answered with status 400 (Bad Request); one whose \<^verbatim>\<open>sessionId\<close> is not empty and
  names no registered session is answered with status 404. Neither changes the server.
\<close>

theorem message_without_session:
  "http_Method r = ''POST'' \<longrightarrow>
     (queryGet (http_Query r) ''sessionId'' = [] \<longrightarrow> sse_handleMessage w r s = (Status 400, s)) \<and>
     (queryGet (http_Query r) ''sessionId'' \<noteq> [] \<and>
      map_of (sessions s) (queryGet (http_Query r) ''sessionId'') = None \<longrightarrow>
        sse_handleMessage w r s = (Status 404, s))"
  by (simp add: sse_handleMessage_def)

theorem message_without_session_witness:
  "http_Method (postRequest [(''sessionId'', ''42'')]) = ''POST'' \<and>
   queryGet (http_Query (postRequest [])) ''sessionId'' = [] \<and>
   queryGet (http_Query (postRequest [(''sessionId'', ''42'')])) ''sessionId'' \<noteq> [] \<and>
   map_of (sessions (NewSSEServer demoConfig))
     (queryGet (http_Query (postRequest [(''sessionId'', ''42'')])) ''sessionId'') = None \<and>
   sse_handleMessage (demoWorld Hangs) (postRequest []) (NewSSEServer demoConfig)
     = (Status 400, NewSSEServer demoConfig) \<and>
   sse_handleMessage (demoWorld Hangs) (postRequest [(''sessionId'', ''42'')]) (NewSSEServer demoConfig)
     = (Status 404, NewSSEServer demoConfig)"
proof -
  have m: "http_Method (postRequest [(''sessionId'', ''42'')]) = ''POST''"
    "http_Method (postRequest []) = ''POST''"
    by (simp_all add: postRequest_def)
  have q0: "queryGet (http_Query (postRequest [])) ''sessionId'' = []"
    by (simp add: postRequest_def queryGet_def)
  have q1: "queryGet (http_Query (postRequest [(''sessionId'', ''42'')])) ''sessionId'' \<noteq> []"
    by (simp add: postRequest_def queryGet_def)
  have n: "map_of (sessions (NewSSEServer demoConfig))
     (queryGet (http_Query (postRequest [(''sessionId'', ''42'')])) ''sessionId'') = None"
    by (simp add: NewSSEServer_def)
  from message_without_session[of "postRequest []" "demoWorld Hangs" "NewSSEServer demoConfig"] m q0
  have a: "sse_handleMessage (demoWorld Hangs) (postRequest []) (NewSSEServer demoConfig)
     = (Status 400, NewSSEServer demoConfig)" by blast
  from message_without_session[of "postRequest [(''sessionId'', ''42'')]" "demoWorld Hangs"
         "NewSSEServer demoConfig"] m q1 n
  have b: "sse_handleMessage (demoWorld Hangs) (postRequest [(''sessionId'', ''42'')]) (NewSSEServer demoConfig)
     = (Status 404, NewSSEServer demoConfig)" by blast
  from m q0 q1 n a b show ?thesis by blast
qed

subsection \<open>Failures of the SSH layer\<close>

lemma sendError_frame:
  "sendError i code message data s = s\<lparr>writer := writer s @ [errorFrame i code message data]\<rparr>"
  by (simp add: sendError_def writeResponse_def errorFrame_def)

lemma handleSSHExecute_failed:
  assumes "decodeSSHExecuteParams args = Some p0"
    and "Execute w (connInfoOf (fillExecuteDefaults w (SSH (mcp_config s)) p0))
           (ep_Command p0) (sshClient s) = (Err e, c)"
  shows "handleSSHExecute w rid args s =
           s\<lparr>sshClient := c,
             writer := writer s @ [errorFrame rid (- 32000) txt_exec_failed (Some (errorText e))]\<rparr>"
proof -
  have cmd: "ep_Command (fillExecuteDefaults w (SSH (mcp_config s)) p0) = ep_Command p0"
    by (simp add: fillExecuteDefaults_def Let_def)
  from assms cmd show ?thesis
    by (simp add: handleSSHExecute_def Let_def sendError_frame ServerError_def)
qed

lemma sse_toolCall_execute:
  "sse_handleToolsCall w (Params (toolCall i ''ssh_execute'' args)) s = executeSSHCommand w args s"
  by (simp add: sse_handleToolsCall_def toolCall_def assertString_def assertMap_def)

lemma sse_execute_failed:
  assumes "assertString args ''host'' = Some host" and "assertString args ''command'' = Some command"
    and "Execute w (sseConnInfo (SSH (sse_config s)) args host) command (sse_sshClient s) = (Err e, c)"
  shows "sse_handleRequest w (toolCall i ''ssh_execute'' args) s =
           (Inr (Some (errorFrame i (- 32000) (txt_exec_failed @ '': '' @ errorText e) None)),
            s\<lparr>sse_sshClient := c\<rparr>)"
proof -
  from assms have "executeSSHCommand w args s =
      (Err (Wrapf (txt_exec_failed @ '': '') e), s\<lparr>sse_sshClient := c\<rparr>)"
    by (simp add: executeSSHCommand_def)
  then have "sse_handleToolsCall w (Params (toolCall i ''ssh_execute'' args)) s =
      (Err (Wrapf (txt_exec_failed @ '': '') e), s\<lparr>sse_sshClient := c\<rparr>)"
    by (simp add: sse_toolCall_execute)
  then show ?thesis
    by (simp add: sse_handleRequest_def Let_def errorFrame_def) (simp add: toolCall_def)
qed

lemma Execute_connect_failed:
  "Connect w info c = (Err e, c1) \<Longrightarrow>
     Execute w info command c = (Err (Wrapf txt_connect_failed e), c1)"
  by (simp add: Execute_def)

lemma Execute_timeout:
  assumes "Connect w info c = (Ok client, c1)" and "newSession w client = None"
    and "stdoutPipeErr (sessionRun w client command) = None"
    and "stderrPipeErr (sessionRun w client command) = None"
    and "startErr (sessionRun w client command) = None"
    and "\<not> doneFirst c1 (completes (sessionRun w client command))"
  shows "Execute w info command c =
           (Err (Errorf txt_command_timeout), c1\<lparr>effects := effects c1 @ [Signalled client]\<rparr>)"
  using assms
  by (auto simp add: Execute_def awaitCommand_def doneFirst_def split: completion.splits)

text \<open>
  Claim C1, as stated, fails: when the SSH server refuses the password, and when the
  command outlives the deadline, the stdio server answers \<^verbatim>\<open>ssh_execute\<close> with a JSON-RPC
  error object of code -32000 and no result.
\<close>

theorem ssh_failure_counterexample:
  "writer (handleSSHExecute (demoWorld Hangs) (Some (JNumber 7)) wrongPasswordArgs demoServer) =
     [errorFrame (Some (JNumber 7)) (- 32000) txt_exec_failed
        (Some (txt_connect_failed @ txt_create_conn_failed @ txt_connect_failed
                 @ ''ssh: unable to authenticate''))] \<and>
   writer (handleSSHExecute (demoWorld Hangs) (Some (JNumber 7)) demoArgs demoServer) =
     [errorFrame (Some (JNumber 7)) (- 32000) txt_exec_failed (Some txt_command_timeout)]"
  by (simp add: model_defs wrongPasswordArgs_def)

text \<open>
  Claim C1, amended. For every \<^verbatim>\<open>ssh_execute\<close> call in which \<^verbatim>\<open>Execute\<close> fails (the connection
  or the authentication fails, so that \<^verbatim>\<open>Connect\<close> returns an error, or the command is not
  done before the deadline, which signals the session and returns the error "command
  execution timed out"), the server answers with a JSON-RPC error object of code -32000 and
  no result: on the stdio server with the message "SSH command execution failed" and the
  text of the error as data, on the HTTP/SSE server with that message followed by the text
  of the error.
\<close>

theorem ssh_failure_is_rpc_error:
  "(decodeSSHExecuteParams args = Some params \<and>
    Execute w (connInfoOf (fillExecuteDefaults w (SSH (mcp_config s)) params)) (ep_Command params)
      (sshClient s) = (Err e, c) \<longrightarrow>
      handleSSHExecute w rid args s =
        s\<lparr>sshClient := c,
          writer := writer s @ [errorFrame rid (- 32000) txt_exec_failed (Some (errorText e))]\<rparr>) \<and>
   (assertString sargs ''host'' = Some host \<and> assertString sargs ''command'' = Some command \<and>
    Execute w (sseConnInfo (SSH (sse_config ss)) sargs host) command (sse_sshClient ss) = (Err serr, scl) \<longrightarrow>
      sse_handleRequest w (toolCall rid ''ssh_execute'' sargs) ss =
        (Inr (Some (errorFrame rid (- 32000) (txt_exec_failed @ '': '' @ errorText serr) None)),
         ss\<lparr>sse_sshClient := scl\<rparr>)) \<and>
   (Connect w info cl = (Err cerr, cl') \<longrightarrow>
      Execute w info cmd cl = (Err (Wrapf txt_connect_failed cerr), cl')) \<and>
   (Connect w info cl = (Ok client, cl') \<and> newSession w client = None \<and>
    stdoutPipeErr (sessionRun w client cmd) = None \<and>
    stderrPipeErr (sessionRun w client cmd) = None \<and>
    startErr (sessionRun w client cmd) = None \<and>
    \<not> doneFirst cl' (completes (sessionRun w client cmd)) \<longrightarrow>
      Execute w info cmd cl =
        (Err (Errorf txt_command_timeout), cl'\<lparr>effects := effects cl' @ [Signalled client]\<rparr>))"
  using handleSSHExecute_failed[of args params w s e c rid]
    sse_execute_failed[of sargs host command w ss serr scl rid]
    Execute_connect_failed[of w info cl cerr cl' cmd]
    Execute_timeout[of w info cl client cl' cmd]
  by blast

text \<open>
  C1 with a wrong password on both servers, and with a command that never returns.
\<close>

theorem ssh_failure_is_rpc_error_witness:
  "decodeSSHExecuteParams wrongPasswordArgs = Some wrongPasswordParams \<and>
   Execute (demoWorld Hangs)
     (connInfoOf (fillExecuteDefaults (demoWorld Hangs) (SSH (mcp_config demoServer)) wrongPasswordParams))
     (ep_Command wrongPasswordParams) (sshClient demoServer) = (Err authError, dialledClient) \<and>
   handleSSHExecute (demoWorld Hangs) (Some (JNumber 7)) wrongPasswordArgs demoServer =
     demoServer\<lparr>sshClient := dialledClient,
       writer := writer demoServer @
         [errorFrame (Some (JNumber 7)) (- 32000) txt_exec_failed (Some (errorText authError))]\<rparr> \<and>
   assertString wrongPasswordArgs ''host'' = Some ''localhost'' \<and>
   assertString wrongPasswordArgs ''command'' = Some ''printf hello'' \<and>
   sse_handleRequest (demoWorld Hangs) (toolCall (Some (JNumber 7)) ''ssh_execute'' wrongPasswordArgs)
       (NewSSEServer demoConfig) =
     (Inr (Some (errorFrame (Some (JNumber 7)) (- 32000)
                   (txt_exec_failed @ '': '' @ errorText authError) None)),
      (NewSSEServer demoConfig)\<lparr>sse_sshClient := dialledClient\<rparr>) \<and>
   Connect (demoWorld Hangs) demoInfo (NewClient (SSH demoConfig)) =
     (Ok 1, dialledClient\<lparr>connections := [(''root@localhost:22'', 1)]\<rparr>) \<and>
   \<not> doneFirst (dialledClient\<lparr>connections := [(''root@localhost:22'', 1)]\<rparr>)
        (completes (sessionRun (demoWorld Hangs) 1 ''sleep 60'')) \<and>
   Execute (demoWorld Hangs) demoInfo ''sleep 60'' (NewClient (SSH demoConfig)) =
     (Err (Errorf txt_command_timeout),
      dialledClient\<lparr>connections := [(''root@localhost:22'', 1)],
                     effects := [Dialed ''localhost:22'', Signalled 1]\<rparr>)"
proof -
  let ?w = "demoWorld Hangs"
  let ?c1 = "dialledClient\<lparr>connections := [(''root@localhost:22'', 1)]\<rparr>"
  have d: "decodeSSHExecuteParams wrongPasswordArgs = Some wrongPasswordParams"
    by (simp add: model_defs wrongPasswordArgs_def wrongPasswordParams_def authError_def dialledClient_def)
  have x: "Execute ?w
     (connInfoOf (fillExecuteDefaults ?w (SSH (mcp_config demoServer)) wrongPasswordParams))
     (ep_Command wrongPasswordParams) (sshClient demoServer) = (Err authError, dialledClient)"
    by (simp add: model_defs wrongPasswordArgs_def wrongPasswordParams_def authError_def dialledClient_def)
  have h: "assertString wrongPasswordArgs ''host'' = Some ''localhost''"
    and cm: "assertString wrongPasswordArgs ''command'' = Some ''printf hello''"
    by (simp_all add: wrongPasswordArgs_def assertString_def)
  have x2: "Execute ?w (sseConnInfo (SSH (sse_config (NewSSEServer demoConfig))) wrongPasswordArgs
              ''localhost'') ''printf hello'' (sse_sshClient (NewSSEServer demoConfig))
            = (Err authError, dialledClient)"
    by (simp add: model_defs wrongPasswordArgs_def wrongPasswordParams_def authError_def dialledClient_def)
  have cn: "Connect ?w demoInfo (NewClient (SSH demoConfig)) = (Ok 1, ?c1)"
    by (simp add: model_defs wrongPasswordArgs_def wrongPasswordParams_def authError_def dialledClient_def)
  have ns: "newSession ?w 1 = None" "stdoutPipeErr (sessionRun ?w 1 ''sleep 60'') = None"
    "stderrPipeErr (sessionRun ?w 1 ''sleep 60'') = None" "startErr (sessionRun ?w 1 ''sleep 60'') = None"
    by (simp_all add: demoWorld_def demoRun_def)
  have nd: "\<not> doneFirst ?c1 (completes (sessionRun ?w 1 ''sleep 60''))"
    by (simp add: demoWorld_def demoRun_def doneFirst_def)
  have ef: "effects ?c1 = [Dialed ''localhost:22'']" by (simp add: dialledClient_def)
  note t = ssh_failure_is_rpc_error[where args = wrongPasswordArgs and params = wrongPasswordParams
         and w = ?w and s = demoServer and e = authError and c = dialledClient
         and rid = "Some (JNumber 7)" and sargs = wrongPasswordArgs and host = "''localhost''"
         and command = "''printf hello''" and ss = "NewSSEServer demoConfig" and serr = authError
         and scl = dialledClient and info = demoInfo and cl = "NewClient (SSH demoConfig)"
         and client = 1 and cmd = "''sleep 60''" and cl' = ?c1]
  from t d x have a: "handleSSHExecute ?w (Some (JNumber 7)) wrongPasswordArgs demoServer =
     demoServer\<lparr>sshClient := dialledClient,
       writer := writer demoServer @
         [errorFrame (Some (JNumber 7)) (- 32000) txt_exec_failed (Some (errorText authError))]\<rparr>"
    by blast
  from t h cm x2 have b: "sse_handleRequest ?w (toolCall (Some (JNumber 7)) ''ssh_execute'' wrongPasswordArgs)
       (NewSSEServer demoConfig) =
     (Inr (Some (errorFrame (Some (JNumber 7)) (- 32000)
                   (txt_exec_failed @ '': '' @ errorText authError) None)),
      (NewSSEServer demoConfig)\<lparr>sse_sshClient := dialledClient\<rparr>)"
    by blast
  from t cn ns nd have c: "Execute ?w demoInfo ''sleep 60'' (NewClient (SSH demoConfig)) =
     (Err (Errorf txt_command_timeout), ?c1\<lparr>effects := effects ?c1 @ [Signalled 1]\<rparr>)"
    by blast
  from c ef have c': "Execute ?w demoInfo ''sleep 60'' (NewClient (SSH demoConfig)) =
     (Err (Errorf txt_command_timeout),
      dialledClient\<lparr>connections := [(''root@localhost:22'', 1)],
                     effects := [Dialed ''localhost:22'', Signalled 1]\<rparr>)"
    by simp
  from d x a h cm b cn nd c' show ?thesis by blast
qed

subsection \<open>Initialization and notifications\<close>

lemma initialized_writeResponse [simp]: "initialized (writeResponse r s) = initialized s"
  by (simp add: writeResponse_def)

lemma initialized_sendError [simp]: "initialized (sendError i code m d s) = initialized s"
  by (simp add: sendError_def)

lemma initialized_sendResponse [simp]: "initialized (sendResponse i r s) = initialized s"
  by (simp add: sendResponse_def)

lemma initialized_handleSSHExecute [simp]:
  "initialized (handleSSHExecute w rid args s) = initialized s"
  by (simp add: handleSSHExecute_def Let_def split: option.splits prod.splits outcome.splits)

lemma initialized_handleSSHFileTransfer [simp]:
  "initialized (handleSSHFileTransfer w rid args s) = initialized s"
  by (simp add: handleSSHFileTransfer_def Let_def split: option.splits)

lemma initialized_handleToolsCall [simp]:
  "initialized (handleToolsCall w request s) = initialized s"
  by (simp add: handleToolsCall_def dispatchTool_def split: option.splits)

lemma initialized_handleInitialize [simp]:
  "initialized (handleInitialize w request s) = initialized s"
  by (simp add: handleInitialize_def Let_def split: option.splits)








text \<open>
  Claim C6 on the stdio server: a notification (a message without \<^verbatim>\<open>id\<close>) whose method the
  server does not know is answered with an error frame on standard output, and so is a
  \<^verbatim>\<open>tools/list\<close> without \<^verbatim>\<open>id\<close>.
\<close>

theorem notification_answered_on_stdio:
  "writer (handleMessage (demoWorld Hangs) (Parsed (rpc None ''notifications/cancelled'')) demoServer) =
     [errorFrame None (- 32601) (txt_unknown_method @ ''notifications/cancelled'') None] \<and>
   writer (handleMessage (demoWorld Hangs) (Parsed (rpc None ''tools/list'')) demoServer) =
     [\<lparr>resp_JSONRPC = ''2.0'', resp_ID = None,
       resp_Result = Some (ToolsListR (stdioTools (demoWorld Hangs) demoConfig)),
       resp_Error = None\<rparr>]"
  by (simp add: model_defs)

lemma sse_notification_silent:
  assumes "sse_handleMessage w r s = (reply, s')"
    and "http_Body r = Parsed v" and "decodeRequest v = Some request" and "ID request = None"
  shows "sessions s' = sessions s"
proof -
  have rq: "sessions (snd (sse_handleRequest w request s)) = sessions s"
    by (auto simp add: sse_handleRequest_def Let_def sse_handleToolsCall_def executeSSHCommand_def
          executeSSHFileTransfer_def
          split: option.splits json.splits prod.splits outcome.splits)
  from assms rq show ?thesis
    by (auto simp add: sse_handleMessage_def split: if_splits option.splits prod.splits sum.splits)
qed

subsection \<open>The timeout argument\<close>

text \<open>
  Claim C3 on the code: the command takes ten seconds. With the argument \<^verbatim>\<open>timeout\<close> = 1 and
  the configured timeout of thirty seconds, both servers let it finish and return its
  result; with \<^verbatim>\<open>timeout\<close> = 60 and a configured timeout of five seconds, both cut it off
  and report the timeout. The deadline is the configured one.
\<close>

theorem timeout_argument_ignored:
  "writer (handleSSHExecute (demoWorld tenSeconds) (Some (JNumber 6))
             (demoArgs @ [(''timeout'', JNumber 1)]) demoServer) =
     [\<lparr>resp_JSONRPC = ''2.0'', resp_ID = Some (JNumber 6),
       resp_Result = Some (ToolCallR doneResult), resp_Error = None\<rparr>] \<and>
   fst (executeSSHCommand (demoWorld tenSeconds) (demoArgs @ [(''timeout'', JNumber 1)])
          (NewSSEServer demoConfig)) = Ok doneResult \<and>
   writer (handleSSHExecute (demoWorld tenSeconds) (Some (JNumber 6))
             (demoArgs @ [(''timeout'', JNumber 60)]) quickServer) =
     [errorFrame (Some (JNumber 6)) (- 32000) txt_exec_failed (Some txt_command_timeout)] \<and>
   fst (executeSSHCommand (demoWorld tenSeconds) (demoArgs @ [(''timeout'', JNumber 60)])
          (NewSSEServer quickConfig)) = Err (Wrapf (txt_exec_failed @ '': '') (Errorf txt_command_timeout))"
  by (simp add: model_defs tenSeconds_def quickConfig_def quickServer_def doneResult_def)

lemma timeout_argument_unused:
  assumes "decodeSSHExecuteParams args = Some p" and "decodeSSHExecuteParams args' = Some p'"
    and "p'\<lparr>ep_Timeout := 0\<rparr> = p\<lparr>ep_Timeout := 0\<rparr>"
  shows "handleSSHExecute w rid args' s = handleSSHExecute w rid args s"
proof -
  from assms(3) have eq: "ep_Host p' = ep_Host p" "ep_Command p' = ep_Command p"
    "ep_User p' = ep_User p" "ep_Port p' = ep_Port p" "ep_Password p' = ep_Password p"
    by (cases p, cases p', simp)+
  have "connInfoOf (fillExecuteDefaults w (SSH (mcp_config s)) p')
          = connInfoOf (fillExecuteDefaults w (SSH (mcp_config s)) p)"
    "ep_Command (fillExecuteDefaults w (SSH (mcp_config s)) p')
          = ep_Command (fillExecuteDefaults w (SSH (mcp_config s)) p)"
    "ep_Host (fillExecuteDefaults w (SSH (mcp_config s)) p')
          = ep_Host (fillExecuteDefaults w (SSH (mcp_config s)) p)"
    using eq by (simp_all add: connInfoOf_def fillExecuteDefaults_def Let_def)
  with assms(1,2) show ?thesis
    by (simp add: handleSSHExecute_def Let_def cong: outcome.case_cong)
qed

subsection \<open>Validation of tool arguments\<close>















end
